theory Spec2Isabelle
  imports Complex_Main "HOL-Library.List_Lexorder"
begin

section \<open>Strings and numbers of the host language\<close>

text \<open>
  A JavaScript string is a sequence of UTF-16 code units; a code unit is modelled as a
  natural number. ASCII literals of the source are written \<open>ascii ''...''\<close>; literals
  outside ASCII are written as the lists of their code units (all of them lie in the Basic
  Multilingual Plane, where a code unit is the code point).

  A finite Number value is modelled as the rational it denotes. Where the source parses
  a decimal text or computes with the values of a time series, the result is rounded to
  IEEE binary64 (section Number values). The fact filter only compares values; in the
  fact table builder, whose values are money amounts read from the filings, deviations
  and averages are exact.
\<close>

type_synonym jsstring = "nat list"

definition ascii :: "string \<Rightarrow> jsstring" where
  "ascii s = map of_char s"

text \<open>\<open>s.startsWith(k)\<close> and \<open>s.includes(k)\<close> (\<open>includes\<close> is a reserved word here).\<close>

fun startsWith :: "jsstring \<Rightarrow> jsstring \<Rightarrow> bool" where
  "startsWith s [] = True"
| "startsWith [] (k # ks) = False"
| "startsWith (c # cs) (k # ks) = (c = k \<and> startsWith cs ks)"

fun str_includes :: "jsstring \<Rightarrow> jsstring \<Rightarrow> bool" where
  "str_includes [] k = (k = [])"
| "str_includes (c # cs) k = (startsWith (c # cs) k \<or> str_includes cs k)"

text \<open>
  \<open>s.toLowerCase()\<close> on the Basic Latin range: \<open>A\<close>..\<open>Z\<close> (65..90) become
  \<open>a\<close>..\<open>z\<close>; every other code unit is kept. The keyword tables below contain
  no cased letter outside that range, and the general statements about the classifier
  and the filter read the lower-cased text only, whatever the mapping is.
\<close>

definition toLowerCase :: "jsstring \<Rightarrow> jsstring" where
  "toLowerCase s = map (\<lambda>c. if 65 \<le> c \<and> c \<le> 90 then c + 32 else c) s"

section \<open>Number values\<close>

text \<open>
  A Number value is \<open>NaN\<close>, one of the two infinities, or a finite binary64 number; the
  two zeros are not told apart.

  \<open>binary64 x\<close> is the binary64 number nearest to the rational \<open>x\<close>, a tie going to
  the even significand (roundTiesToEven): a significand of 53 bits at the binary
  exponent of \<open>x\<close>, and below 2^-1022 the spacing 2^-1074 of the subnormal numbers.
  \<open>bitLength n\<close> is the number of binary digits of \<open>n\<close>, and \<open>binade a\<close> the
  exponent \<open>e\<close> with 2^e \<le> a < 2^(e+1). \<open>toNumber\<close> adds the overflow: a rounded
  magnitude of 2^1024 or more is an infinity.
\<close>

datatype jsnumber = NaN | Infinity | NegInfinity | Number rat

fun bitLength :: "nat \<Rightarrow> nat" where
  "bitLength n = (if n = 0 then 0 else Suc (bitLength (n div 2)))"

declare bitLength.simps [simp del]

definition pow2 :: "int \<Rightarrow> rat" where
  "pow2 k = (if 0 \<le> k then 2 ^ nat k else 1 / 2 ^ nat (- k))"

definition binade :: "rat \<Rightarrow> int" where
  "binade a = (if 1 \<le> a then int (bitLength (nat \<lfloor>a\<rfloor>)) - 1
               else - int (bitLength (nat (\<lceil>1 / a\<rceil> - 1))))"

definition roundHalfEven :: "rat \<Rightarrow> int" where
  "roundHalfEven y =
     (let f = \<lfloor>y\<rfloor>; d = y - of_int f
      in if d < 1 / 2 then f else if 1 / 2 < d then f + 1 else if even f then f else f + 1)"

definition binary64 :: "rat \<Rightarrow> rat" where
  "binary64 x =
     (if x = 0 then 0
      else
        (let a = \<bar>x\<bar>;
             q = pow2 (max (binade a) (- 1022) - 52);
             m = of_int (roundHalfEven (a / q)) * q
         in if x < 0 then - m else m))"

definition toNumber :: "rat \<Rightarrow> jsnumber" where
  "toNumber x =
     (let y = binary64 x
      in if 2 ^ 1024 \<le> y then Infinity
         else if y \<le> - (2 ^ 1024) then NegInfinity
         else Number y)"

section \<open>Concept classifier (xbrl-parser.js, classifyFact)\<close>

datatype category =
    Revenue
  | Current_Assets | Non_current_Assets | Total_Assets | Assets
  | Current_Liabilities | Non_current_Liabilities | Total_Liabilities | Liabilities
  | Equity
  | Operating_Income | Gross_Profit | Net_Income_Profit
  | Operating_Expenses | Cost_of_Sales | Expenses
  | Cash_Flow_Operating | Cash_Flow_Investing | Cash_Flow_Financing | Cash_and_Equivalents
  | Inventory | Receivables | Payables | Depreciation_Amortization
  | Other

text \<open>
  The function is one chain of \<open>if\<close> statements over \<open>conceptLower\<close>; each test is
  a disjunction of \<open>conceptLower.includes(...)\<close>. The second parameter \<open>taxonomy\<close>
  (default \<open>'unknown'\<close>) is never read.
\<close>

definition classifyFact :: "jsstring \<Rightarrow> jsstring \<Rightarrow> category" where
  "classifyFact concept taxonomy =
    (let conceptLower = toLowerCase concept; inc = str_includes conceptLower in
     if inc (ascii ''expense'') \<or> inc (ascii ''cost'') \<or>
        inc [0xBE44, 0xC6A9] \<or> inc [0xC6D0, 0xAC00] \<or>
        inc [0x8CBB, 0x7528] \<or> inc [0x7D4C, 0x8CBB] \<or>
        inc [0x8CA9, 0x58F2, 0x8CBB]
     then
       (if inc (ascii ''operating'') \<or> inc [0xC601, 0xC5C5] \<or> inc [0x55B6, 0x696D]
        then Operating_Expenses
        else if inc (ascii ''costofsales'') \<or> inc (ascii ''costofrevenue'') \<or>
           inc [0xB9E4, 0xCD9C, 0xC6D0, 0xAC00] \<or> inc [0x58F2, 0x4E0A, 0x539F, 0x4FA1]
        then Cost_of_Sales
        else Expenses)
     else if inc (ascii ''revenue'') \<or> inc (ascii ''sales'') \<or>
        inc (ascii ''netrevenue'') \<or> inc (ascii ''netsales'') \<or>
        inc [0xB9E4, 0xCD9C] \<or> inc [0xC218, 0xC775] \<or>
        inc [0x58F2, 0x4E0A] \<or> inc [0x55B6, 0x696D, 0x53CE, 0x76CA] \<or>
        inc [0x53CE, 0x76CA]
     then Revenue
     else if inc (ascii ''asset'') \<or> inc [0xC790, 0xC0B0] \<or> inc [0x8CC7, 0x7523]
     then
       (if inc (ascii ''current'') \<or> inc [0xC720, 0xB3D9] \<or> inc [0x6D41, 0x52D5]
        then Current_Assets
        else if inc (ascii ''noncurrent'') \<or> inc (ascii ''non-current'') \<or>
           inc [0xBE44, 0xC720, 0xB3D9] \<or> inc [0x56FA, 0x5B9A]
        then Non_current_Assets
        else if inc (ascii ''total'') \<or> inc [0xD569, 0xACC4] \<or> inc [0x7DCF]
        then Total_Assets
        else Assets)
     else if inc (ascii ''liabilit'') \<or> inc [0xBD80, 0xCC44] \<or> inc [0x8CA0, 0x50B5]
     then
       (if inc (ascii ''current'') \<or> inc [0xC720, 0xB3D9] \<or> inc [0x6D41, 0x52D5]
        then Current_Liabilities
        else if inc (ascii ''noncurrent'') \<or> inc (ascii ''non-current'') \<or>
           inc [0xBE44, 0xC720, 0xB3D9] \<or> inc [0x56FA, 0x5B9A]
        then Non_current_Liabilities
        else if inc (ascii ''total'') \<or> inc [0xD569, 0xACC4] \<or> inc [0x7DCF]
        then Total_Liabilities
        else Liabilities)
     else if inc (ascii ''equity'') \<or> inc [0xC790, 0xBCF8] \<or> inc [0x8CC7, 0x672C] \<or>
        inc (ascii ''netassets'') \<or> inc (ascii ''stockholdersequity'') \<or>
        inc [0x7D14, 0x8CC7, 0x7523]
     then Equity
     else if inc (ascii ''income'') \<or> inc (ascii ''profit'') \<or>
        inc [0xB2F9, 0xAE30, 0xC21C, 0xC774, 0xC775] \<or> inc [0xC774, 0xC775] \<or>
        inc [0x5229, 0x76CA] \<or> inc [0x6240, 0x5F97] \<or>
        inc (ascii ''netincome'') \<or> inc (ascii ''netprofit'') \<or>
        inc [0x5F53, 0x671F, 0x7D14, 0x5229, 0x76CA] \<or>
        inc [0x7A0E, 0x5F15, 0x524D, 0x5229, 0x76CA]
     then
       (if inc (ascii ''operating'') \<or> inc [0xC601, 0xC5C5] \<or> inc [0x55B6, 0x696D]
        then Operating_Income
        else if inc (ascii ''gross'') \<or> inc [0xB9E4, 0xCD9C, 0xCD1D] \<or>
           inc [0x58F2, 0x4E0A, 0x7DCF]
        then Gross_Profit
        else Net_Income_Profit)
     else if inc (ascii ''cash'') \<or> inc [0xD604, 0xAE08] \<or> inc [0x73FE, 0x91D1]
     then
       (if inc (ascii ''operating'') \<or> inc [0xC601, 0xC5C5, 0xD65C, 0xB3D9] \<or>
           inc [0x55B6, 0x696D, 0x6D3B, 0x52D5]
        then Cash_Flow_Operating
        else if inc (ascii ''investing'') \<or> inc [0xD22C, 0xC790, 0xD65C, 0xB3D9] \<or>
           inc [0x6295, 0x8CC7, 0x6D3B, 0x52D5]
        then Cash_Flow_Investing
        else if inc (ascii ''financing'') \<or> inc [0xC7AC, 0xBB34, 0xD65C, 0xB3D9] \<or>
           inc [0x8CA1, 0x52D9, 0x6D3B, 0x52D5]
        then Cash_Flow_Financing
        else Cash_and_Equivalents)
     else if inc (ascii ''inventor'') \<or> inc [0xC7AC, 0xACE0] \<or> inc [0x68DA, 0x5378]
     then Inventory
     else if inc (ascii ''receivable'') \<or> inc [0xB9E4, 0xCD9C, 0xCC44, 0xAD8C] \<or>
        inc [0x58F2, 0x639B, 0x91D1] \<or> inc [0x53D7, 0x53D6]
     then Receivables
     else if inc (ascii ''payable'') \<or> inc [0xB9E4, 0xC785, 0xCC44, 0xBB34] \<or>
        inc [0x8CB7, 0x639B, 0x91D1]
     then Payables
     else if inc (ascii ''depreciation'') \<or> inc (ascii ''amortization'') \<or>
        inc [0xAC10, 0xAC00, 0xC0C1, 0xAC01] \<or> inc [0x511F, 0x5374]
     then Depreciation_Amortization
     else Other)"

text \<open>
  The two keyword families named by the specification: the expense family
  (cost, expense, U+BE44 U+C6A9, U+C6D0 U+AC00, U+8CBB U+7528, U+7D4C U+8CBB,
  U+8CA9 U+58F2 U+8CBB) and the revenue family (the keywords of the revenue test).
\<close>

definition expense_keywords :: "jsstring list" where
  "expense_keywords =
     [ascii ''cost'', ascii ''expense'', [0xBE44, 0xC6A9], [0xC6D0, 0xAC00],
      [0x8CBB, 0x7528], [0x7D4C, 0x8CBB], [0x8CA9, 0x58F2, 0x8CBB]]"

definition revenue_keywords :: "jsstring list" where
  "revenue_keywords =
     [ascii ''revenue'', ascii ''sales'', ascii ''netrevenue'', ascii ''netsales'',
      [0xB9E4, 0xCD9C], [0xC218, 0xC775], [0x58F2, 0x4E0A],
      [0x55B6, 0x696D, 0x53CE, 0x76CA], [0x53CE, 0x76CA]]"

definition contains_keyword :: "jsstring list \<Rightarrow> jsstring \<Rightarrow> bool" where
  "contains_keyword kws concept = list_ex (str_includes (toLowerCase concept)) kws"

definition expense_categories :: "category set" where
  "expense_categories = {Operating_Expenses, Cost_of_Sales, Expenses}"

section \<open>Value parsing (xbrl-parser.js, parseFactValue)\<close>

text \<open>The values a caller can pass.\<close>

datatype jsvalue = JUndefined | JNull | JBool bool | JNum jsnumber | JStr jsstring | JObject

datatype exn = TypeError

definition truthy :: "jsvalue \<Rightarrow> bool" where
  "truthy v = (case v of
      JUndefined \<Rightarrow> False | JNull \<Rightarrow> False | JBool b \<Rightarrow> b
    | JNum n \<Rightarrow> n \<noteq> NaN \<and> n \<noteq> Number 0
    | JStr s \<Rightarrow> s \<noteq> [] | JObject \<Rightarrow> True)"

definition typeof :: "jsvalue \<Rightarrow> string" where
  "typeof v = (case v of
      JUndefined \<Rightarrow> ''undefined'' | JNull \<Rightarrow> ''object'' | JBool b \<Rightarrow> ''boolean''
    | JNum n \<Rightarrow> ''number'' | JStr s \<Rightarrow> ''string'' | JObject \<Rightarrow> ''object'')"

text \<open>
  The receiver of a String method (\<open>text.trim()\<close>): on \<open>undefined\<close> and \<open>null\<close> the
  property access throws, on a value of another type the method is missing and the call
  throws.
\<close>

definition string_receiver :: "jsvalue \<Rightarrow> exn + jsstring" where
  "string_receiver v = (case v of JStr s \<Rightarrow> Inr s | _ \<Rightarrow> Inl TypeError)"

text \<open>
  White space as \<open>trim\<close> and the pattern \<open>\s\<close> read it: the WhiteSpace and
  LineTerminator code points. U+3000, the full-width space, is one of them.
\<close>

definition isWhiteSpace :: "nat \<Rightarrow> bool" where
  "isWhiteSpace c =
     (c \<in> set [0x09, 0x0A, 0x0B, 0x0C, 0x0D, 0x20, 0xA0, 0x1680, 0x2028, 0x2029, 0x202F,
               0x205F, 0x3000, 0xFEFF]
      \<or> (0x2000 \<le> c \<and> c \<le> 0x200A))"

definition trim :: "jsstring \<Rightarrow> jsstring" where
  "trim s = rev (dropWhile isWhiteSpace (rev (dropWhile isWhiteSpace s)))"

text \<open>
  \<open>parseFloat\<close>: leading white space is skipped, then the longest prefix that is a
  decimal literal is read: an optional sign, then \<open>Infinity\<close> or digits with an optional
  fraction and an optional exponent. Whatever follows the literal is ignored. Without
  such a prefix the result is \<open>NaN\<close>. The result is the Number value of the literal:
  its mathematical value, rounded.
\<close>

definition isDigit :: "nat \<Rightarrow> bool" where
  "isDigit c = (48 \<le> c \<and> c \<le> 57)"

definition digitsValue :: "jsstring \<Rightarrow> nat" where
  "digitsValue ds = foldl (\<lambda>a c. 10 * a + (c - 48)) 0 ds"

definition exponentPart :: "jsstring \<Rightarrow> int" where
  "exponentPart s =
     (case s of
        [] \<Rightarrow> 0
      | c # r \<Rightarrow>
          if c = 101 \<or> c = 69 then
            (let (negative, r1) =
                   (case r of
                      [] \<Rightarrow> (False, [])
                    | d # r' \<Rightarrow> if d = 45 then (True, r') else if d = 43 then (False, r')
                               else (False, r));
                 ds = takeWhile isDigit r1
             in if ds = [] then 0
                else if negative then - int (digitsValue ds) else int (digitsValue ds))
          else 0)"

definition parseFloat :: "jsstring \<Rightarrow> jsnumber" where
  "parseFloat input =
     (let s = dropWhile isWhiteSpace input;
          (negative, s1) =
            (case s of
               [] \<Rightarrow> (False, [])
             | c # r \<Rightarrow> if c = 45 then (True, r) else if c = 43 then (False, r)
                        else (False, s))
      in if startsWith s1 (ascii ''Infinity'')
         then (if negative then NegInfinity else Infinity)
         else
           (let ip = takeWhile isDigit s1;
                r1 = dropWhile isDigit s1;
                (fp, r2) =
                  (case r1 of
                     [] \<Rightarrow> ([], [])
                   | c # r \<Rightarrow> if c = 46 then (takeWhile isDigit r, dropWhile isDigit r)
                              else ([], r1))
            in if ip = [] \<and> fp = [] then NaN
               else
                 (let e = exponentPart r2;
                      m = of_nat (digitsValue ip) + of_nat (digitsValue fp) / 10 ^ length fp;
                      v = (if 0 \<le> e then m * 10 ^ nat e else m / 10 ^ nat (- e))
                  in toNumber (if negative then - v else v))))"

definition isNaN :: "jsnumber \<Rightarrow> bool" where
  "isNaN n = (n = NaN)"

definition negate :: "jsnumber \<Rightarrow> jsnumber" where
  "negate n = (case n of NaN \<Rightarrow> NaN | Infinity \<Rightarrow> NegInfinity | NegInfinity \<Rightarrow> Infinity
               | Number x \<Rightarrow> Number (- x))"

text \<open>
  \<open>parseFactValue\<close>. The result \<open>Inr None\<close> is \<open>null\<close>, \<open>Inl\<close> a thrown
  exception. The three \<open>replace\<close> calls with a global one-character pattern and an empty
  replacement are filters; 44 is the comma, 45 the ASCII hyphen, and U+25B3, U+25B2,
  U+FF0D are the white triangle, the black triangle and the full-width hyphen.
\<close>

definition parseFactValue :: "jsvalue \<Rightarrow> exn + jsnumber option" where
  "parseFactValue text =
     (if \<not> truthy text \<or> typeof text \<noteq> ''string'' then Inr None
      else
        (case string_receiver text of
           Inl e \<Rightarrow> Inl e
         | Inr s \<Rightarrow>
            (let cleaned = filter (\<lambda>c. c \<noteq> 0x3000)
                             (filter (\<lambda>c. \<not> isWhiteSpace c)
                               (filter (\<lambda>c. c \<noteq> 44) (trim s)));
                 isNegative = (str_includes cleaned [0x25B3] \<or> str_includes cleaned [0x25B2]
                               \<or> str_includes cleaned [0xFF0D] \<or> startsWith cleaned [45]);
                 cleaned' = filter (\<lambda>c. c \<notin> set [0x25B3, 0x25B2, 0xFF0D, 45]) cleaned;
                 num = parseFloat cleaned'
             in if isNaN num then Inr None
                else Inr (Some (if isNegative then negate num else num)))))"

text \<open>
  The words of the specification: the cleaned text is the input without commas, white
  space, the three negative glyphs and the ASCII hyphen. A text is a valid number when
  the whole of it is a decimal literal: an optional sign, then \<open>Infinity\<close>, or digits
  with an optional fraction, or a fraction alone, and an optional exponent. A text
  begins with a number when, after an optional sign, it starts with a digit, with a
  point and a digit, or with \<open>Infinity\<close>.
\<close>

definition isStripped :: "nat \<Rightarrow> bool" where
  "isStripped c = (c = 44 \<or> isWhiteSpace c \<or> c \<in> set [0x25B3, 0x25B2, 0xFF0D, 45])"

definition cleanedText :: "jsstring \<Rightarrow> jsstring" where
  "cleanedText s = filter (\<lambda>c. \<not> isStripped c) s"

definition dropSign :: "jsstring \<Rightarrow> jsstring" where
  "dropSign t = (case t of [] \<Rightarrow> [] | c # r \<Rightarrow> if c = 43 \<or> c = 45 then r else t)"

definition validExponent :: "jsstring \<Rightarrow> bool" where
  "validExponent r =
     (case r of
        [] \<Rightarrow> True
      | c # r1 \<Rightarrow> (c = 101 \<or> c = 69) \<and> dropSign r1 \<noteq> [] \<and> list_all isDigit (dropSign r1))"

definition validNumber :: "jsstring \<Rightarrow> bool" where
  "validNumber t =
     (let u = dropSign t;
          ip = takeWhile isDigit u;
          r1 = dropWhile isDigit u
      in u = ascii ''Infinity''
         \<or> (case r1 of
               [] \<Rightarrow> ip \<noteq> []
             | c # r \<Rightarrow>
                 if c = 46
                 then (ip \<noteq> [] \<or> takeWhile isDigit r \<noteq> []) \<and> validExponent (dropWhile isDigit r)
                 else ip \<noteq> [] \<and> validExponent r1))"

fun beginsUnsigned :: "jsstring \<Rightarrow> bool" where
  "beginsUnsigned [] = False"
| "beginsUnsigned [c] = isDigit c"
| "beginsUnsigned (c # d # r) =
     (isDigit c \<or> (c = 46 \<and> isDigit d) \<or> startsWith (c # d # r) (ascii ''Infinity''))"

definition beginsWithNumber :: "jsstring \<Rightarrow> bool" where
  "beginsWithNumber t = beginsUnsigned (dropSign t)"

definition hasNegativeGlyph :: "jsstring \<Rightarrow> bool" where
  "hasNegativeGlyph s = list_ex (\<lambda>c. c \<in> set [0x25B3, 0x25B2, 0xFF0D]) s"

text \<open>The text in which the sign is looked for: the input without commas and white space.\<close>

definition stage1 :: "jsstring \<Rightarrow> jsstring" where
  "stage1 s = filter (\<lambda>c. c \<noteq> 44 \<and> \<not> isWhiteSpace c) s"

text \<open>
  Modelled from the spec: the repository has no function that renders an integer with
  thousands separators; the specification's round trip names it \<open>format\<close> (comma-insert).
  \<open>decimal\<close> gives the decimal digits of a number, \<open>commaFormat\<close> puts a comma
  between groups of three digits, counted from the right.
\<close>

fun decimal :: "nat \<Rightarrow> jsstring" where
  "decimal n = (if n < 10 then [48 + n] else decimal (n div 10) @ [48 + n mod 10])"

declare decimal.simps [simp del]

fun group3 :: "jsstring \<Rightarrow> jsstring" where
  "group3 (a # b # c # d # rest) = a # b # c # 44 # group3 (d # rest)"
| "group3 ds = ds"

definition commaFormat :: "nat \<Rightarrow> jsstring" where
  "commaFormat n = rev (group3 (rev (decimal n)))"

section \<open>Facts\<close>

text \<open>
  A fact as the parsers produce it. A field that may be absent or \<open>null\<close> is an option.
  The period of an inline-XBRL fact has the three date fields, each possibly the empty
  string. \<open>dimensions\<close> maps axis names to member labels; it is kept as the list of its
  entries in the order in which \<open>Object.keys\<close> enumerates them, and member labels are
  strings. The fields that are only handed through to the output (\<open>rawValue\<close>,
  \<open>contextRef\<close>, \<open>unitRef\<close>, \<open>decimals\<close>, \<open>scale\<close>) are left out.
\<close>

record period_info =
  instant :: "jsstring option"
  startDate :: "jsstring option"
  endDate :: "jsstring option"

type_synonym dimensions = "(jsstring \<times> jsstring) list"

record fact =
  namespace :: "jsstring option"
  concept :: jsstring
  accountName :: "jsstring option"
  "value" :: "rat option"
  period :: "period_info option"
  dimensions :: "dimensions option"

section \<open>Dimension extractor (fact-table-builder.js)\<close>

text \<open>
  \<open>cleanDimensionValue\<close>: a falsy value is returned as it is (for a string: the empty
  one; the \<open>typeof\<close> test holds for every member label). Otherwise
  \<open>value.split(':').pop()\<close> keeps what follows the last colon (58), the pattern
  \<open>/Member$/\<close> removes that suffix at the very end, \<open>/([A-Z])/g\<close> with \<open>' $1'\<close> puts a
  space (32) before every letter \<open>A\<close>..\<open>Z\<close>, and \<open>trim\<close> removes surrounding white
  space.
\<close>

fun split :: "nat \<Rightarrow> jsstring \<Rightarrow> jsstring list" where
  "split sep [] = [[]]"
| "split sep (c # cs) =
     (if c = sep then [] # split sep cs
      else (case split sep cs of [] \<Rightarrow> [[c]] | p # ps \<Rightarrow> (c # p) # ps))"

definition endsWith :: "jsstring \<Rightarrow> jsstring \<Rightarrow> bool" where
  "endsWith s k = startsWith (rev s) (rev k)"

definition cleanDimensionValue :: "jsstring \<Rightarrow> jsstring" where
  "cleanDimensionValue v =
     (if v = [] then v
      else
        (let a = last (split 58 v);
             b = (if endsWith a (ascii ''Member'') then take (length a - 6) a else a);
             c = concat (map (\<lambda>ch. if 65 \<le> ch \<and> ch \<le> 90 then [32, ch] else [ch]) b)
         in trim c))"

text \<open>
  The key lists of the three extractors. The entries outside ASCII are U+5730 U+57DF and
  U+C9C0 U+C5ED (geography), U+30BB U+30B0 U+30E1 U+30F3 U+30C8, U+C0AC U+C5C5 U+BD80
  U+BB38 and U+BD80 U+BB38 (segment), U+88FD U+54C1, U+5546 U+54C1, U+C81C U+D488 and
  U+C0C1 U+D488 (product).
\<close>

definition geoKeys :: "jsstring list" where
  "geoKeys =
     [ascii ''GeographicalAreasMember'', ascii ''CountriesMember'', ascii ''RegionsMember'',
      ascii ''StatementGeographicalAxis'',
      ascii ''GeographicArea'', [0x5730, 0x57DF], ascii ''Region'',
      [0xC9C0, 0xC5ED], ascii ''Area'']"

definition segmentKeys :: "jsstring list" where
  "segmentKeys =
     [ascii ''SegmentsMember'', ascii ''BusinessSegmentsMember'',
      ascii ''OperatingSegmentsMember'', ascii ''StatementBusinessSegmentsAxis'',
      ascii ''Segment'', [0x30BB, 0x30B0, 0x30E1, 0x30F3, 0x30C8], ascii ''BusinessSegment'',
      [0xC0AC, 0xC5C5, 0xBD80, 0xBB38], [0xBD80, 0xBB38]]"

definition productKeys :: "jsstring list" where
  "productKeys =
     [ascii ''ProductsAndServicesMember'', ascii ''ProductMember'', ascii ''SubsegmentsAxis'',
      ascii ''Product'', [0x88FD, 0x54C1], [0x5546, 0x54C1],
      [0xC81C, 0xD488], [0xC0C1, 0xD488]]"

text \<open>
  Each extractor returns \<open>null\<close> for missing dimensions and otherwise runs the same loop
  over the keys with its own list: the first key that contains one of the listed texts
  decides, and the cleaned value of that key is returned; \<open>null\<close> when no key matches.
\<close>

fun firstMatching :: "jsstring list \<Rightarrow> dimensions \<Rightarrow> jsstring option" where
  "firstMatching keys [] = None"
| "firstMatching keys ((key, v) # rest) =
     (if list_ex (\<lambda>k. str_includes key k) keys then Some (cleanDimensionValue v)
      else firstMatching keys rest)"

definition extractGeographyFromDimensions :: "dimensions option \<Rightarrow> jsstring option" where
  "extractGeographyFromDimensions dims =
     (case dims of None \<Rightarrow> None | Some d \<Rightarrow> firstMatching geoKeys d)"

definition extractSegmentFromDimensions :: "dimensions option \<Rightarrow> jsstring option" where
  "extractSegmentFromDimensions dims =
     (case dims of None \<Rightarrow> None | Some d \<Rightarrow> firstMatching segmentKeys d)"

definition extractProductFromDimensions :: "dimensions option \<Rightarrow> jsstring option" where
  "extractProductFromDimensions dims =
     (case dims of None \<Rightarrow> None | Some d \<Rightarrow> firstMatching productKeys d)"

definition hasGeographyDimension :: "dimensions option \<Rightarrow> bool" where
  "hasGeographyDimension dims = (extractGeographyFromDimensions dims \<noteq> None)"

definition hasSegmentDimension :: "dimensions option \<Rightarrow> bool" where
  "hasSegmentDimension dims = (extractSegmentFromDimensions dims \<noteq> None)"

definition hasProductDimension :: "dimensions option \<Rightarrow> bool" where
  "hasProductDimension dims = (extractProductFromDimensions dims \<noteq> None)"

text \<open>
  The cleaning in the words of the specification: strip the namespace prefix up to and
  including the last colon, strip a trailing \<open>Member\<close>, put a space before every
  capital letter, trim. \<open>keyMatches\<close> says that the key of an entry contains one of the
  listed texts.
\<close>

definition stripNamespace :: "jsstring \<Rightarrow> jsstring" where
  "stripNamespace v = rev (takeWhile (\<lambda>c. c \<noteq> 58) (rev v))"

definition stripMemberSuffix :: "jsstring \<Rightarrow> jsstring" where
  "stripMemberSuffix v =
     (if take 6 (rev v) = rev (ascii ''Member'') then rev (drop 6 (rev v)) else v)"

fun spaceBeforeCapitals :: "jsstring \<Rightarrow> jsstring" where
  "spaceBeforeCapitals [] = []"
| "spaceBeforeCapitals (c # cs) =
     (if 65 \<le> c \<and> c \<le> 90 then 32 # c # spaceBeforeCapitals cs else c # spaceBeforeCapitals cs)"

definition cleaned :: "jsstring \<Rightarrow> jsstring" where
  "cleaned v = trim (spaceBeforeCapitals (stripMemberSuffix (stripNamespace v)))"

definition keyMatches :: "jsstring list \<Rightarrow> jsstring \<times> jsstring \<Rightarrow> bool" where
  "keyMatches keys kv = (\<exists>k \<in> set keys. str_includes (fst kv) k)"

section \<open>Fact filter (xbrl-parser.js, filterFacts)\<close>

text \<open>
  The criteria object. An absent option is \<open>None\<close>; the two flags are false when
  absent. The callback of \<open>facts.filter\<close> returns false at the first criterion that
  fails; a criterion that is absent or falsy (the empty string) is skipped.
\<close>

record valueRange =
  vr_min :: "rat option"
  vr_max :: "rat option"

record criteria =
  c_concept :: "jsstring option"
  c_valueRange :: "valueRange option"
  c_period :: "jsstring option"
  c_hasValue :: bool
  c_hasDimensions :: bool

text \<open>\<open>fact.period?.endDate || fact.period?.instant || ''\<close>\<close>

definition factPeriod :: "fact \<Rightarrow> jsstring" where
  "factPeriod f =
     (case period f of
        None \<Rightarrow> []
      | Some p \<Rightarrow>
          (case endDate p of
             Some e \<Rightarrow> if e \<noteq> [] then e else (case instant p of Some i \<Rightarrow> i | None \<Rightarrow> [])
           | None \<Rightarrow> (case instant p of Some i \<Rightarrow> i | None \<Rightarrow> [])))"

definition keepFact :: "criteria \<Rightarrow> fact \<Rightarrow> bool" where
  "keepFact c f =
     (if (case c_concept c of
            Some k \<Rightarrow> k \<noteq> [] \<and> \<not> str_includes (toLowerCase (concept f)) (toLowerCase k)
          | None \<Rightarrow> False)
      then False
      else if c_hasValue c \<and> value f = None
      then False
      else if (case c_valueRange c of
                 Some vr \<Rightarrow>
                   (case value f of
                      None \<Rightarrow> True
                    | Some x \<Rightarrow>
                        (case vr_min vr of Some lo \<Rightarrow> x < lo | None \<Rightarrow> False)
                        \<or> (case vr_max vr of Some hi \<Rightarrow> x > hi | None \<Rightarrow> False))
               | None \<Rightarrow> False)
      then False
      else if (case c_period c of
                 Some p \<Rightarrow> p \<noteq> [] \<and> \<not> str_includes (factPeriod f) p
               | None \<Rightarrow> False)
      then False
      else if c_hasDimensions c
              \<and> (case dimensions f of None \<Rightarrow> True | Some d \<Rightarrow> length d = 0)
      then False
      else True)"

definition filterFacts :: "fact list \<Rightarrow> criteria \<Rightarrow> fact list" where
  "filterFacts facts c = filter (keepFact c) facts"

text \<open>
  The criteria in the words of the specification, one predicate each, and their
  conjunction. The period criterion reads the effective period of a fact: its end date
  when the fact has one, else its instant when it has one, else the empty string; a date
  field that is the empty string counts as missing, as the parsers write it for a
  missing date. \<open>noCriteria\<close> is the empty criteria object.
\<close>

definition conceptMatches :: "criteria \<Rightarrow> fact \<Rightarrow> bool" where
  "conceptMatches c f =
     (case c_concept c of None \<Rightarrow> True
      | Some k \<Rightarrow> str_includes (toLowerCase (concept f)) (toLowerCase k))"

definition inValueRange :: "criteria \<Rightarrow> fact \<Rightarrow> bool" where
  "inValueRange c f =
     (case c_valueRange c of None \<Rightarrow> True
      | Some vr \<Rightarrow>
          (case value f of None \<Rightarrow> False
           | Some x \<Rightarrow> (case vr_min vr of None \<Rightarrow> True | Some lo \<Rightarrow> lo \<le> x)
                     \<and> (case vr_max vr of None \<Rightarrow> True | Some hi \<Rightarrow> x \<le> hi)))"

definition present :: "jsstring option \<Rightarrow> bool" where
  "present s = (s \<noteq> None \<and> s \<noteq> Some [])"

definition effectivePeriod :: "fact \<Rightarrow> jsstring" where
  "effectivePeriod f =
     (if period f = None then []
      else if present (endDate (the (period f))) then the (endDate (the (period f)))
      else if present (instant (the (period f))) then the (instant (the (period f)))
      else [])"

definition periodMatches :: "criteria \<Rightarrow> fact \<Rightarrow> bool" where
  "periodMatches c f =
     (case c_period c of None \<Rightarrow> True | Some p \<Rightarrow> str_includes (effectivePeriod f) p)"

definition valuePresent :: "criteria \<Rightarrow> fact \<Rightarrow> bool" where
  "valuePresent c f = (c_hasValue c \<longrightarrow> value f \<noteq> None)"

definition dimensionsPresent :: "criteria \<Rightarrow> fact \<Rightarrow> bool" where
  "dimensionsPresent c f =
     (c_hasDimensions c \<longrightarrow> dimensions f \<noteq> None \<and> dimensions f \<noteq> Some [])"

definition satisfiesAll :: "criteria \<Rightarrow> fact \<Rightarrow> bool" where
  "satisfiesAll c f =
     (conceptMatches c f \<and> inValueRange c f \<and> periodMatches c f
      \<and> valuePresent c f \<and> dimensionsPresent c f)"

definition noCriteria :: criteria where
  "noCriteria = \<lparr>c_concept = None, c_valueRange = None, c_period = None,
                  c_hasValue = False, c_hasDimensions = False\<rparr>"

text \<open>
  Facts for concrete fixtures: \<open>fx\<close> has a concept and a value only; \<open>fp\<close> has a
  concept, the value 1, the two dates of its period (\<open>None\<close> for an absent field) and
  possibly a dimension.
\<close>

definition fx :: "string \<Rightarrow> rat option \<Rightarrow> fact" where
  "fx name v = \<lparr>namespace = None, concept = ascii name, accountName = None, value = v,
       period = None, dimensions = None\<rparr>"

definition fp :: "string \<Rightarrow> string option \<Rightarrow> string option \<Rightarrow> dimensions option \<Rightarrow> fact" where
  "fp name e i d =
     \<lparr>namespace = None, concept = ascii name, accountName = None, value = Some 1,
      period = Some \<lparr>instant = map_option ascii i, startDate = None,
                     endDate = map_option ascii e\<rparr>,
      dimensions = d\<rparr>"

definition periodFixture :: "fact list" where
  "periodFixture =
     [fp ''A'' (Some ''2023-12-31'') (Some ''2022-12-31'') None,
      fp ''B'' (Some []) (Some ''2023-03-31'') None,
      fp ''C'' None (Some ''2023-06-30'') (Some []),
      fp ''D'' (Some ''2022-12-31'') (Some ''2023-12-31'') None,
      fx ''E'' (Some 1),
      fp ''F'' None None None,
      fp ''G'' (Some ''2023-09-30'') None (Some [(ascii ''Axis'', ascii ''Member'')]),
      (fp ''H'' (Some ''2023-09-30'') None None)\<lparr>value := None\<rparr>]"

definition periodCriteria :: criteria where
  "periodCriteria = \<lparr>c_concept = None, c_valueRange = None, c_period = Some (ascii ''2023''),
                      c_hasValue = False, c_hasDimensions = False\<rparr>"

section \<open>Arrays\<close>

text \<open>
  \<open>[...new Set(xs)]\<close> keeps the first occurrence of every element, in order.
  \<open>xs.sort(compare)\<close> is stable: an element goes before another when \<open>compare\<close> is
  negative, after it when positive, and equal elements keep their order. It is modelled
  as insertion from the right.
\<close>

fun uniq :: "'a list \<Rightarrow> 'a list" where
  "uniq [] = []"
| "uniq (x # xs) = x # uniq (filter (\<lambda>y. y \<noteq> x) xs)"

fun insertBy :: "('a \<Rightarrow> 'a \<Rightarrow> rat) \<Rightarrow> 'a \<Rightarrow> 'a list \<Rightarrow> 'a list" where
  "insertBy cmp x [] = [x]"
| "insertBy cmp x (y # ys) = (if cmp x y \<le> 0 then x # y # ys else y # insertBy cmp x ys)"

definition sortWith :: "('a \<Rightarrow> 'a \<Rightarrow> rat) \<Rightarrow> 'a list \<Rightarrow> 'a list" where
  "sortWith cmp xs = foldr (insertBy cmp) xs []"

section \<open>Fact table builder (fact-table-builder.js)\<close>

text \<open>
  \<open>buildFactTable\<close> first retrieves the facts of one filing (the EDINET or DART calls,
  which fail for an unsupported country or a missing Korean document id); that step is
  outside the model and the facts of the filing are an argument. \<open>sortBy\<close> is one of the
  three recognised strings or anything else. \<open>filters\<close> is the caller's criteria object:
  \<open>None\<close> is an absent key, and a present \<open>valueRange\<close> key may hold a falsy value.
\<close>

datatype country = JP | KR

datatype sortBy = by_deviation | by_value | by_concept | by_other

datatype periodType = instant_period | duration_period

record filters =
  fl_concept :: "jsstring option"
  fl_valueRange :: "valueRange option option"
  fl_period :: "jsstring option"
  fl_hasValue :: "bool option"
  fl_hasDimensions :: "bool option"

record tableOptions =
  maxRows :: nat
  sortBy :: sortBy
  filters :: filters

definition noFilters :: filters where
  "noFilters = \<lparr>fl_concept = None, fl_valueRange = None, fl_period = None,
                 fl_hasValue = None, fl_hasDimensions = None\<rparr>"

definition defaultOptions :: tableOptions where
  "defaultOptions = \<lparr>maxRows = 25, sortBy = by_deviation, filters = noFilters\<rparr>"

text \<open>
  \<open>{ valueRange: {min, max}, hasValue: true, ...tableOptions.filters }\<close>: the keys of the
  caller's filters are spread last and replace the two defaults.
\<close>

definition searchCriteria :: "rat \<Rightarrow> rat \<Rightarrow> filters \<Rightarrow> criteria" where
  "searchCriteria targetValue tolerance fl =
     \<lparr>c_concept = fl_concept fl,
      c_valueRange =
        (case fl_valueRange fl of
           None \<Rightarrow> Some \<lparr>vr_min = Some (targetValue - tolerance),
                          vr_max = Some (targetValue + tolerance)\<rparr>
         | Some given \<Rightarrow> given),
      c_period = fl_period fl,
      c_hasValue = (case fl_hasValue fl of None \<Rightarrow> True | Some b \<Rightarrow> b),
      c_hasDimensions = (case fl_hasDimensions fl of None \<Rightarrow> False | Some b \<Rightarrow> b)\<rparr>"

text \<open>
  \<open>num\<close> is the number a possibly null value stands for in arithmetic (\<open>null\<close> counts as
  0); \<open>orNull\<close> is \<open>s || null\<close> on strings.
\<close>

definition num :: "rat option \<Rightarrow> rat" where
  "num v = (case v of None \<Rightarrow> 0 | Some x \<Rightarrow> x)"

definition orNull :: "jsstring option \<Rightarrow> jsstring option" where
  "orNull s = (case s of Some t \<Rightarrow> if t \<noteq> [] then Some t else None | None \<Rightarrow> None)"

text \<open>
  A row of the table. The formatted strings (\<open>valueFormatted\<close>, \<open>deviationFormatted\<close>,
  \<open>deviationPercent\<close>) and the fields handed through from the fact are left out.
\<close>

record enrichedFact =
  rowNumber :: nat
  e_concept :: jsstring
  e_accountName :: "jsstring option"
  e_namespace :: jsstring
  e_value :: "rat option"
  exactMatch :: bool
  deviationFromTarget :: rat
  periodType :: periodType
  periodStart :: "jsstring option"
  periodEnd :: "jsstring option"
  e_dimensions :: dimensions
  dimensionCount :: nat
  e_geography :: "jsstring option"
  e_segment :: "jsstring option"
  e_product :: "jsstring option"
  hasGeographicDimension :: bool
  e_hasSegmentDimension :: bool
  e_hasProductDimension :: bool
  businessClassification :: category

definition enrichFact :: "country \<Rightarrow> rat \<Rightarrow> nat \<Rightarrow> fact \<Rightarrow> enrichedFact" where
  "enrichFact country targetValue index f =
     (let deviation = num (value f) - targetValue;
          exact = (\<bar>deviation\<bar> < 1000)
      in \<lparr>rowNumber = index + 1,
          e_concept = concept f,
          e_accountName = orNull (accountName f),
          e_namespace = (case orNull (namespace f) of Some n \<Rightarrow> n | None \<Rightarrow> ascii ''unknown''),
          e_value = value f,
          exactMatch = exact,
          deviationFromTarget = deviation,
          periodType =
            (case period f of
               None \<Rightarrow> duration_period
             | Some p \<Rightarrow> if orNull (instant p) \<noteq> None then instant_period else duration_period),
          periodStart = (case period f of None \<Rightarrow> None | Some p \<Rightarrow> startDate p),
          periodEnd =
            (case period f of
               None \<Rightarrow> None
             | Some p \<Rightarrow> if orNull (endDate p) \<noteq> None then endDate p else instant p),
          e_dimensions = (case dimensions f of None \<Rightarrow> [] | Some d \<Rightarrow> d),
          dimensionCount = length (case dimensions f of None \<Rightarrow> [] | Some d \<Rightarrow> d),
          e_geography = extractGeographyFromDimensions (dimensions f),
          e_segment = extractSegmentFromDimensions (dimensions f),
          e_product = extractProductFromDimensions (dimensions f),
          hasGeographicDimension = hasGeographyDimension (dimensions f),
          e_hasSegmentDimension = hasSegmentDimension (dimensions f),
          e_hasProductDimension = hasProductDimension (dimensions f),
          businessClassification =
            classifyFact (concept f) (if country = JP then ascii ''J-GAAP'' else ascii ''K-GAAP'')\<rparr>)"

text \<open>
  \<open>sortFacts\<close> sorts in place; the model returns the sorted list. \<open>localeCompare\<close>, the
  locale-dependent comparison of the host, is an argument.
\<close>

definition sortFacts ::
  "(jsstring \<Rightarrow> jsstring \<Rightarrow> rat) \<Rightarrow> enrichedFact list \<Rightarrow> sortBy \<Rightarrow> enrichedFact list" where
  "sortFacts localeCompare facts sb =
     (if sb = by_deviation
      then sortWith (\<lambda>a b. \<bar>deviationFromTarget a\<bar> - \<bar>deviationFromTarget b\<bar>) facts
      else if sb = by_value
      then sortWith (\<lambda>a b. num (e_value b) - num (e_value a)) facts
      else if sb = by_concept
      then sortWith (\<lambda>a b. localeCompare (e_concept a) (e_concept b)) facts
      else facts)"

text \<open>
  The breakdowns are objects keyed by the dimension label; they are kept as lists in the
  order in which the labels first occur. A fact without the label (null or empty) is
  skipped. The formatted strings are left out.
\<close>

record breakdownEntry =
  b_count :: nat
  b_totalValue :: rat
  b_avgValue :: rat

type_synonym breakdown = "(jsstring \<times> breakdownEntry) list"

fun addToBreakdown :: "breakdown \<Rightarrow> jsstring \<Rightarrow> rat \<Rightarrow> breakdown" where
  "addToBreakdown [] key v = [(key, \<lparr>b_count = 1, b_totalValue = v, b_avgValue = 0\<rparr>)]"
| "addToBreakdown ((k, e) # rest) key v =
     (if k = key
      then (k, e\<lparr>b_count := b_count e + 1, b_totalValue := b_totalValue e + v\<rparr>) # rest
      else (k, e) # addToBreakdown rest key v)"

definition withAverages :: "breakdown \<Rightarrow> breakdown" where
  "withAverages bd =
     map (\<lambda>(k, e). (k, e\<lparr>b_avgValue := b_totalValue e / of_nat (b_count e)\<rparr>)) bd"

definition getGeographicBreakdown :: "enrichedFact list \<Rightarrow> breakdown" where
  "getGeographicBreakdown facts =
     withAverages
       (foldl (\<lambda>bd f. case orNull (e_geography f) of
                         Some g \<Rightarrow> addToBreakdown bd g (num (e_value f))
                       | None \<Rightarrow> bd) [] facts)"

definition getSegmentBreakdown :: "enrichedFact list \<Rightarrow> breakdown" where
  "getSegmentBreakdown facts =
     withAverages
       (foldl (\<lambda>bd f. case orNull (e_segment f) of
                         Some g \<Rightarrow> addToBreakdown bd g (num (e_value f))
                       | None \<Rightarrow> bd) [] facts)"

fun countType :: "(category \<times> nat) list \<Rightarrow> category \<Rightarrow> (category \<times> nat) list" where
  "countType [] t = [(t, 1)]"
| "countType ((k, n) # rest) t = (if k = t then (k, n + 1) # rest else (k, n) # countType rest t)"

text \<open>
  \<open>generateFactTableSummary\<close>. \<open>Math.min(...values)\<close> and \<open>Math.max(...values)\<close> are
  folds over the values; \<open>closestMatch\<close> is the \<open>reduce\<close> that starts at \<open>facts[0]\<close> and
  moves to a fact only when its deviation is strictly smaller.
\<close>

record summaryStats =
  totalFacts :: nat
  exactMatches :: nat
  conceptTypes :: "jsstring list"
  uniqueConcepts :: nat
  factsWithGeography :: nat
  factsWithSegments :: nat
  factsWithProducts :: nat
  factsWithDimensions :: nat
  valueMin :: rat
  valueMax :: rat
  valueAverage :: rat
  businessTypes :: "(category \<times> nat) list"
  periodTypes :: "periodType list"
  geographicBreakdown :: breakdown
  segmentBreakdown :: breakdown
  closestMatch :: enrichedFact

datatype summary = NoFactsInRange | NoFacts | Summary summaryStats

definition generateFactTableSummary :: "enrichedFact list \<Rightarrow> rat \<Rightarrow> summary" where
  "generateFactTableSummary facts targetValue =
     (case facts of
        [] \<Rightarrow> NoFacts
      | first # others \<Rightarrow>
          (let values = map (\<lambda>f. num (e_value f)) facts
           in Summary
             \<lparr>totalFacts = length facts,
              exactMatches = length (filter exactMatch facts),
              conceptTypes = uniq (map e_concept facts),
              uniqueConcepts = length (uniq (map e_concept facts)),
              factsWithGeography = length (filter hasGeographicDimension facts),
              factsWithSegments = length (filter e_hasSegmentDimension facts),
              factsWithProducts = length (filter e_hasProductDimension facts),
              factsWithDimensions = length (filter (\<lambda>f. dimensionCount f > 0) facts),
              valueMin = fold min (tl values) (hd values),
              valueMax = fold max (tl values) (hd values),
              valueAverage = foldl (\<lambda>a b. a + b) 0 values / of_nat (length values),
              businessTypes = foldl (\<lambda>acc f. countType acc (businessClassification f)) [] facts,
              periodTypes = uniq (map periodType facts),
              geographicBreakdown = getGeographicBreakdown facts,
              segmentBreakdown = getSegmentBreakdown facts,
              closestMatch =
                foldl (\<lambda>closest f.
                         if \<bar>deviationFromTarget f\<bar> < \<bar>deviationFromTarget closest\<bar>
                         then f else closest) first facts\<rparr>))"

text \<open>
  The result. When no fact matches, the table is empty and the summary only says so;
  otherwise the matching facts are enriched, sorted, cut to \<open>maxRows\<close> rows with
  \<open>slice(0, maxRows)\<close>, and summarised from the list before the cut.
\<close>

record factTable =
  table :: "enrichedFact list"
  summary :: summary
  totalFactsFound :: "nat option"
  totalFactsReturned :: "nat option"

definition buildFactTable ::
  "(jsstring \<Rightarrow> jsstring \<Rightarrow> rat) \<Rightarrow> country \<Rightarrow> fact list \<Rightarrow> rat \<Rightarrow> rat \<Rightarrow> tableOptions
     \<Rightarrow> factTable" where
  "buildFactTable localeCompare country facts targetValue tolerance tableOptions =
     (let matchingFacts =
            filterFacts facts (searchCriteria targetValue tolerance (filters tableOptions))
      in if length matchingFacts = 0
         then \<lparr>table = [], summary = NoFactsInRange,
               totalFactsFound = None, totalFactsReturned = None\<rparr>
         else
           (let enrichedFacts =
                  sortFacts localeCompare
                    (map (\<lambda>(index, f). enrichFact country targetValue index f)
                       (enumerate 0 matchingFacts))
                    (sortBy tableOptions);
                limitedFacts = take (maxRows tableOptions) enrichedFacts;
                summary = generateFactTableSummary enrichedFacts targetValue
            in \<lparr>table = limitedFacts, summary = summary,
                totalFactsFound = Some (length enrichedFacts),
                totalFactsReturned = Some (length limitedFacts)\<rparr>))"

text \<open>
  Names for the statements below: all enriched facts of a call before sorting, the facts
  that pass the search criteria of a call, and their values.
\<close>

definition enrichAll :: "country \<Rightarrow> rat \<Rightarrow> fact list \<Rightarrow> enrichedFact list" where
  "enrichAll country targetValue ms =
     map (\<lambda>(index, f). enrichFact country targetValue index f) (enumerate 0 ms)"

definition matchingFacts :: "fact list \<Rightarrow> rat \<Rightarrow> rat \<Rightarrow> tableOptions \<Rightarrow> fact list" where
  "matchingFacts facts targetValue tolerance opts =
     filterFacts facts (searchCriteria targetValue tolerance (filters opts))"

definition factValues :: "fact list \<Rightarrow> rat list" where
  "factValues ms = map (\<lambda>f. num (value f)) ms"

text \<open>
  A fixture: five facts, a comparison by code units for \<open>localeCompare\<close>, and options
  whose filters carry a value range of their own (a lower bound of 0 and no upper bound).
\<close>

definition codeUnitCompare :: "jsstring \<Rightarrow> jsstring \<Rightarrow> rat" where
  "codeUnitCompare a b = (if a < b then - 1 else if a = b then 0 else 1)"

definition fixture :: "fact list" where
  "fixture = [fx ''Revenue'' (Some 1040000), fx ''Assets'' (Some 5000000), fx ''NetSales'' (Some 999500),
              fx ''Cash'' None, fx ''CostOfSales'' (Some 960000)]"

definition overridingOptions :: tableOptions where
  "overridingOptions =
     defaultOptions\<lparr>filters :=
        noFilters\<lparr>fl_valueRange := Some (Some \<lparr>vr_min = Some 0, vr_max = None\<rparr>)\<rparr>\<rparr>"

section \<open>Time-series analyzer (time-series-analyzer.js)\<close>

text \<open>
  A row of the time-series table, with the fields the analysis reads: the period of the
  filing, the geography and segment labels (\<open>Total\<close> when the fact has none) and the
  value, which is a number since the facts were filtered with \<open>hasValue\<close>. Of a period
  record only the period is read.
\<close>

record ts_row =
  t_period :: jsstring
  t_geography :: jsstring
  t_segment :: jsstring
  t_value :: rat

record periodRecord =
  p_period :: jsstring
  p_document_id :: "jsstring option"

text \<open>
  The arithmetic of the analyzer is that of binary64: every sum, difference, quotient
  and product is rounded. The values stay finite in the model: an overflow to an
  infinity, which needs magnitudes near 10^308, is not represented.

  \<open>rows.reduce((sum, d) => sum + d.value, 0)\<close>, and \<open>parseFloat(x.toFixed(2))\<close>:
  \<open>toFixed(2)\<close> prints the multiple of 1/100 nearest to the number \<open>x\<close>, the larger
  one at a tie of the magnitudes, and \<open>parseFloat\<close> rounds what is printed; from 10^21 on
  \<open>toFixed\<close> prints the number itself.
\<close>

definition sumValues :: "ts_row list \<Rightarrow> rat" where
  "sumValues rows = foldl (\<lambda>sum d. binary64 (sum + t_value d)) 0 rows"

definition toFixed2 :: "rat \<Rightarrow> rat" where
  "toFixed2 x =
     (if 10 ^ 21 \<le> \<bar>x\<bar> then x
      else (if x < 0 then - 1 else 1) * binary64 (of_int \<lfloor>\<bar>x\<bar> * 100 + 1 / 2\<rfloor> / 100))"

text \<open>
  An entry of the growth-rate list (its formatted strings left out) and the result of
  \<open>calculateGrowthRates\<close>; \<open>averageGrowthRate\<close> is the average before it is printed.
\<close>

record growth =
  g_from :: jsstring
  g_to :: jsstring
  g_geography :: jsstring
  priorValue :: rat
  currentValue :: rat
  absoluteChange :: rat
  growthRate :: rat

record growthAnalysis =
  rates :: "growth list"
  totalComparisons :: nat
  averageGrowthRate :: "rat option"
  highestGrowth :: "growth option"
  lowestGrowth :: "growth option"

text \<open>
  The body of the loop over \<open>i\<close>: the rates of one pair of periods, one entry for every
  geography of either period whose prior sum is positive.
\<close>

definition pairRates :: "ts_row list \<Rightarrow> jsstring \<Rightarrow> jsstring \<Rightarrow> growth list" where
  "pairRates timeSeries currentPeriod priorPeriod =
     (let currentData = filter (\<lambda>t. t_period t = currentPeriod) timeSeries;
          priorData = filter (\<lambda>t. t_period t = priorPeriod) timeSeries;
          geographies = uniq (map t_geography currentData @ map t_geography priorData)
      in concat (map (\<lambda>geo.
           let cur = sumValues (filter (\<lambda>d. t_geography d = geo) currentData);
               pri = sumValues (filter (\<lambda>d. t_geography d = geo) priorData)
           in if pri > 0
              then (let rate = binary64 (binary64 (binary64 (cur - pri) / pri) * 100)
                    in [\<lparr>g_from = priorPeriod, g_to = currentPeriod, g_geography = geo,
                          priorValue = pri, currentValue = cur,
                          absoluteChange = binary64 (cur - pri),
                          growthRate = toFixed2 rate\<rparr>])
              else []) geographies))"

text \<open>
  \<open>periods\<close> is \<open>periodData.map(p => p.period).sort()\<close>, in ascending order of code
  units; the loop takes \<open>periods[i]\<close> as the current and \<open>periods[i + 1]\<close> as the prior
  period. The comparator of the final sort is read by its sign only, and the sign of a
  rounded difference is that of the difference.
\<close>

definition calculateGrowthRates :: "ts_row list \<Rightarrow> periodRecord list \<Rightarrow> growthAnalysis option" where
  "calculateGrowthRates timeSeries periodData =
     (let periods = sort (map p_period periodData) in
      if length periods < 2 then None
      else
        (let growthRates =
               concat (map (\<lambda>i. pairRates timeSeries (periods ! i) (periods ! (i + 1)))
                         [0 ..< length periods - 1]);
             sorted = sortWith (\<lambda>a b. \<bar>growthRate b\<bar> - \<bar>growthRate a\<bar>) growthRates
         in Some \<lparr>rates = sorted,
                  totalComparisons = length sorted,
                  averageGrowthRate =
                    (if length sorted > 0
                     then Some (binary64 (foldl (\<lambda>sum r. binary64 (sum + growthRate r)) 0 sorted
                                          / of_nat (length sorted)))
                     else None),
                  highestGrowth = (case sorted of [] \<Rightarrow> None | r # _ \<Rightarrow> Some r),
                  lowestGrowth = (if sorted = [] then None else Some (last sorted))\<rparr>))"

text \<open>
  \<open>calculateTrends\<close>. \<open>periods\<close> is the sorted list of the distinct periods of the
  table, in ascending order; \<open>firstTotal\<close> is read from the last entry of
  \<open>periodTotals\<close> and \<open>lastTotal\<close> from the entry at index 0.
\<close>

datatype direction = increasing | decreasing | stable | insufficient_data

record trendDetail =
  overallChange :: rat
  overallChangePercent :: rat
  periodTotals :: "(jsstring \<times> rat) list"
  firstPeriod :: "jsstring \<times> rat"
  lastPeriod :: "jsstring \<times> rat"

record trends =
  direction :: direction
  detail :: "trendDetail option"

definition calculateTrends :: "ts_row list \<Rightarrow> trends" where
  "calculateTrends timeSeries =
     (let periods = sort (uniq (map t_period timeSeries)) in
      if length periods < 2 then \<lparr>direction = insufficient_data, detail = None\<rparr>
      else
        (let periodTotals =
               map (\<lambda>p. (p, sumValues (filter (\<lambda>t. t_period t = p) timeSeries))) periods;
             firstTotal = snd (periodTotals ! (length periodTotals - 1));
             lastTotal = snd (periodTotals ! 0);
             change = binary64 (lastTotal - firstTotal);
             changePercent =
               (if firstTotal > 0 then binary64 (binary64 (change / firstTotal) * 100) else 0);
             dir = (if changePercent > 5 then increasing
                    else if changePercent < - 5 then decreasing
                    else stable)
         in \<lparr>direction = dir,
             detail = Some \<lparr>overallChange = change, overallChangePercent = changePercent,
                            periodTotals = periodTotals,
                            firstPeriod = periodTotals ! (length periodTotals - 1),
                            lastPeriod = periodTotals ! 0\<rparr>\<rparr>))"

text \<open>
  Names for the statements below: the total of a period, the total of a geography in a
  period, and two fixtures. \<open>growing\<close> has 100 in the period ending 2022-12-31 and 200
  in the period ending 2023-12-31; in \<open>zeroPrior\<close> the geography Asia has the value 0 in
  the period ending 2022-12-31 and 40 in the period ending 2023-12-31.
\<close>

definition row :: "string \<Rightarrow> string \<Rightarrow> rat \<Rightarrow> ts_row" where
  "row p g v = \<lparr>t_period = ascii p, t_geography = ascii g, t_segment = ascii ''Total'', t_value = v\<rparr>"

definition periodTotal :: "ts_row list \<Rightarrow> jsstring \<Rightarrow> rat" where
  "periodTotal timeSeries p = sum_list (map t_value (filter (\<lambda>t. t_period t = p) timeSeries))"

definition geoTotal :: "ts_row list \<Rightarrow> jsstring \<Rightarrow> jsstring \<Rightarrow> rat" where
  "geoTotal timeSeries p g =
     sum_list (map t_value (filter (\<lambda>t. t_period t = p \<and> t_geography t = g) timeSeries))"

definition growing :: "ts_row list" where
  "growing = [row ''2023-12-31'' ''Total'' 200, row ''2022-12-31'' ''Total'' 100]"

definition growingPeriods :: "periodRecord list" where
  "growingPeriods = [\<lparr>p_period = ascii ''2023-12-31'', p_document_id = None\<rparr>,
                     \<lparr>p_period = ascii ''2022-12-31'', p_document_id = None\<rparr>]"

definition zeroPrior :: "ts_row list" where
  "zeroPrior = [row ''2023-12-31'' ''Asia'' 40, row ''2022-12-31'' ''Asia'' 0]"

text \<open>The results of \<open>calculateGrowthRates\<close> and \<open>calculateTrends\<close> on the fixtures.\<close>

definition zeroPriorGrowth :: growthAnalysis where
  "zeroPriorGrowth =
     (let r = \<lparr>g_from = ascii ''2023-12-31'', g_to = ascii ''2022-12-31'',
               g_geography = ascii ''Asia'', priorValue = 40, currentValue = 0,
               absoluteChange = - 40, growthRate = - 100\<rparr>
      in \<lparr>rates = [r], totalComparisons = 1, averageGrowthRate = Some (- 100),
          highestGrowth = Some r, lowestGrowth = Some r\<rparr>)"

definition reversedGrowth :: growthAnalysis where
  "reversedGrowth =
     (let r = \<lparr>g_from = ascii ''2023-12-31'', g_to = ascii ''2022-12-31'',
               g_geography = ascii ''Total'', priorValue = 200, currentValue = 100,
               absoluteChange = - 100, growthRate = - 50\<rparr>
      in \<lparr>rates = [r], totalComparisons = 1, averageGrowthRate = Some (- 50),
          highestGrowth = Some r, lowestGrowth = Some r\<rparr>)"

definition reversedTrend :: trends where
  "reversedTrend =
     \<lparr>direction = decreasing,
      detail = Some \<lparr>overallChange = - 100, overallChangePercent = - 50,
                     periodTotals = [(ascii ''2022-12-31'', 100), (ascii ''2023-12-31'', 200)],
                     firstPeriod = (ascii ''2023-12-31'', 200),
                     lastPeriod = (ascii ''2022-12-31'', 100)\<rparr>\<rparr>"

section \<open>Properties of number values\<close>

lemma floor_numeral_div:
  "\<lfloor>(numeral a :: rat) / numeral b\<rfloor> = numeral a div numeral b"
  using floor_divide_of_int_eq [of "numeral a" "numeral b", where ?'a = rat] by simp

lemma ceiling_numeral_div:
  "\<lceil>(numeral a :: rat) / numeral b\<rceil> = - ((- numeral a) div numeral b)"
  using floor_divide_of_int_eq [of "- numeral a" "numeral b", where ?'a = rat]
  by (simp add: ceiling_def)

lemma bitLength_0: "bitLength 0 = 0"
  by (simp add: bitLength.simps)

lemma bitLength_1: "bitLength (Suc 0) = Suc 0"
  by (subst bitLength.simps) (simp add: bitLength_0)

lemma bitLength_numeral: "bitLength (numeral k) = Suc (bitLength (numeral k div 2))"
  by (subst bitLength.simps) simp

text \<open>The rules that evaluate \<open>binary64\<close> and \<open>toNumber\<close> on a numeral.\<close>

lemmas b64 = binary64_def toNumber_def binade_def roundHalfEven_def pow2_def
  bitLength_0 bitLength_1 bitLength_numeral floor_numeral_div ceiling_numeral_div Let_def

lemma bitLength_pos: "0 < n \<Longrightarrow> bitLength n = Suc (bitLength (n div 2))"
  by (subst bitLength.simps) simp

lemma bitLength_bounds:
  "0 < n \<Longrightarrow> 2 ^ (bitLength n - 1) \<le> n \<and> n < 2 ^ bitLength n"
proof (induction n rule: bitLength.induct)
  case (1 n)
  show ?case
  proof (cases "n div 2 = 0")
    case True
    with "1.prems" have "n = 1" by presburger
    then show ?thesis by (simp add: bitLength_1)
  next
    case False
    then have h: "0 < n div 2" by simp
    let ?k = "bitLength (n div 2)"
    from "1.IH" "1.prems" h have lo: "2 ^ (?k - 1) \<le> n div 2" and hi: "n div 2 < 2 ^ ?k"
      by simp_all
    have kpos: "0 < ?k" using h by (simp add: bitLength_pos)
    then have p: "(2::nat) ^ ?k = 2 * 2 ^ (?k - 1)"
      by (cases ?k) simp_all
    have "2 * (n div 2) \<le> n" by simp
    with lo p have a: "2 ^ ?k \<le> n" by linarith
    have "n < 2 * (n div 2) + 2" by presburger
    with hi have b: "n < 2 * 2 ^ ?k" by linarith
    from a b "1.prems" show ?thesis by (simp add: bitLength_pos)
  qed
qed

lemma roundHalfEven_of_int: "roundHalfEven (of_int k) = k"
  by (simp add: roundHalfEven_def)

lemma roundHalfEven_numeral: "roundHalfEven (numeral k) = numeral k"
  using roundHalfEven_of_int [of "numeral k"] by simp

text \<open>A natural number up to 2^53 is a binary64 number.\<close>

lemma binary64_of_nat:
  assumes "n \<le> 2 ^ 53"
  shows "binary64 (of_nat n) = of_nat n"
proof (cases "n = 0")
  case True
  then show ?thesis by (simp add: binary64_def)
next
  case False
  then have pos: "0 < n" by simp
  let ?L = "bitLength n"
  from bitLength_bounds [OF pos] have lo: "2 ^ (?L - 1) \<le> n" and hi: "n < 2 ^ ?L" by simp_all
  have Lpos: "0 < ?L" using pos by (simp add: bitLength_pos)
  from lo assms have "(2::nat) ^ (?L - 1) \<le> 2 ^ 53" by (rule order_trans)
  then have "?L - 1 \<le> 53"
    by (rule power_le_imp_le_exp [rotated]) simp
  then have L54: "?L \<le> 54" by simp
  have one: "(1::rat) \<le> of_nat n" using pos by simp
  have bin: "binade (of_nat n) = int ?L - 1"
    using one by (simp add: binade_def)
  have q: "pow2 (max (binade (of_nat n)) (- 1022) - 52) = pow2 (int ?L - 53)"
    unfolding bin using Lpos by (simp add: max_def)
  have m: "of_int (roundHalfEven (of_nat n / pow2 (int ?L - 53))) * pow2 (int ?L - 53)
           = (of_nat n :: rat)"
  proof (cases "?L \<le> 53")
    case True
    then have p: "pow2 (int ?L - 53) = 1 / 2 ^ (53 - ?L)"
      by (cases "?L = 53") (simp_all add: pow2_def nat_diff_distrib)
    have "of_nat n / pow2 (int ?L - 53) = of_int (int n * 2 ^ (53 - ?L))"
      unfolding p by simp
    then have r: "roundHalfEven (of_nat n / pow2 (int ?L - 53)) = int n * 2 ^ (53 - ?L)"
      by (simp only: roundHalfEven_of_int)
    show ?thesis
      unfolding r by (simp add: p)
  next
    case False
    with L54 have L: "?L = 54" by simp
    from lo L assms have n: "n = 2 ^ 53" by simp
    have p: "pow2 (int ?L - 53) = 2" by (simp add: L pow2_def)
    show ?thesis
      unfolding p by (simp add: n roundHalfEven_numeral)
  qed
  have a: "\<bar>of_nat n :: rat\<bar> = of_nat n" by simp
  show ?thesis
    unfolding binary64_def Let_def a q m
    using pos by simp
qed

lemma toNumber_of_nat:
  assumes "n \<le> 2 ^ 53"
  shows "toNumber (of_nat n) = Number (of_nat n)"
proof -
  have "(of_nat n :: rat) \<le> of_nat (2 ^ 53)" using assms by (simp only: of_nat_le_iff)
  also have "\<dots> < 2 ^ 1024" by simp
  finally have "(of_nat n :: rat) < 2 ^ 1024" .
  moreover have "- (2 ^ 1024) < (of_nat n :: rat)"
    by (rule less_le_trans [of _ 0]) simp_all
  ultimately show ?thesis
    by (simp add: toNumber_def binary64_of_nat [OF assms] Let_def)
qed

lemma toNumber_not_NaN: "toNumber x \<noteq> NaN"
  by (simp add: toNumber_def Let_def)

section \<open>Properties of the classifier\<close>

text \<open>
  C6. A concept that contains, case-insensitively, an expense-family keyword and a
  revenue-family keyword is classified into one of the expense categories and never as
  Revenue; the concept \<open>CostOfSalesRevenue\<close> is classified as Cost of Sales.
\<close>

theorem classifyFact_expense_before_revenue:
  "(contains_keyword expense_keywords cname \<and> contains_keyword revenue_keywords cname
      \<longrightarrow> classifyFact cname taxonomy \<in> expense_categories
        \<and> classifyFact cname taxonomy \<noteq> Revenue)
   \<and> classifyFact (ascii ''CostOfSalesRevenue'') taxonomy = Cost_of_Sales"
proof
  show "contains_keyword expense_keywords cname \<and> contains_keyword revenue_keywords cname
      \<longrightarrow> classifyFact cname taxonomy \<in> expense_categories
        \<and> classifyFact cname taxonomy \<noteq> Revenue"
    by (auto simp add: contains_keyword_def expense_keywords_def expense_categories_def
        classifyFact_def Let_def)
next
  show "classifyFact (ascii ''CostOfSalesRevenue'') taxonomy = Cost_of_Sales"
    by (simp add: classifyFact_def toLowerCase_def ascii_def)
qed

theorem classifyFact_expense_before_revenue_witness:
  "contains_keyword expense_keywords (ascii ''CostOfSalesRevenue'')
   \<and> contains_keyword revenue_keywords (ascii ''CostOfSalesRevenue'')
   \<and> classifyFact (ascii ''CostOfSalesRevenue'') (ascii ''J-GAAP'') \<in> expense_categories
   \<and> classifyFact (ascii ''CostOfSalesRevenue'') (ascii ''J-GAAP'') \<noteq> Revenue"
proof -
  have e: "contains_keyword expense_keywords (ascii ''CostOfSalesRevenue'')"
    by (simp add: contains_keyword_def expense_keywords_def toLowerCase_def ascii_def)
  have r: "contains_keyword revenue_keywords (ascii ''CostOfSalesRevenue'')"
    by (simp add: contains_keyword_def revenue_keywords_def toLowerCase_def ascii_def)
  from e r classifyFact_expense_before_revenue
    [of "ascii ''CostOfSalesRevenue''" "ascii ''J-GAAP''"]
  show ?thesis by blast
qed

text \<open>
  C10. The taxonomy argument has no influence on the category: any two taxonomy
  arguments give the same result for the same concept.
\<close>

theorem classifyFact_taxonomy_irrelevant:
  "classifyFact cname t1 = classifyFact cname t2"
  by (simp add: classifyFact_def)

section \<open>Properties of value parsing\<close>

lemma filter_dropWhile_absorb:
  "(\<And>x. Q x \<Longrightarrow> \<not> P x) \<Longrightarrow> filter P (dropWhile Q xs) = filter P xs"
  by (induction xs) auto

lemma filter_trim:
  assumes "\<And>c. isWhiteSpace c \<Longrightarrow> \<not> P c"
  shows "filter P (trim s) = filter P s"
proof -
  have "filter P (trim s) = rev (filter P (dropWhile isWhiteSpace (rev (dropWhile isWhiteSpace s))))"
    by (simp add: trim_def rev_filter)
  also have "\<dots> = rev (filter P (rev (dropWhile isWhiteSpace s)))"
    using assms by (simp add: filter_dropWhile_absorb)
  also have "\<dots> = filter P (dropWhile isWhiteSpace s)"
    by (simp add: rev_filter)
  also have "\<dots> = filter P s"
    using assms by (simp add: filter_dropWhile_absorb)
  finally show ?thesis .
qed

lemma ws_3000: "isWhiteSpace 0x3000"
  by (simp add: isWhiteSpace_def)

lemma cleaned_stage1:
  "filter (\<lambda>c. c \<noteq> 0x3000) (filter (\<lambda>c. \<not> isWhiteSpace c) (filter (\<lambda>c. c \<noteq> 44) (trim s)))
   = stage1 s"
proof -
  have "filter (\<lambda>c. c \<noteq> 0x3000) (filter (\<lambda>c. \<not> isWhiteSpace c) (filter (\<lambda>c. c \<noteq> 44) (trim s)))
      = filter (\<lambda>c. c \<noteq> 44 \<and> \<not> isWhiteSpace c \<and> c \<noteq> 0x3000) (trim s)"
    by (simp add: conj_commute conj_left_commute)
  also have "\<dots> = filter (\<lambda>c. c \<noteq> 44 \<and> \<not> isWhiteSpace c \<and> c \<noteq> 0x3000) s"
    by (rule filter_trim) simp
  also have "\<dots> = stage1 s"
    unfolding stage1_def using ws_3000 by (intro filter_cong) auto
  finally show ?thesis .
qed

lemma cleaned'_cleanedText:
  "filter (\<lambda>c. c \<notin> set [0x25B3, 0x25B2, 0xFF0D, 45]) (stage1 s) = cleanedText s"
  unfolding stage1_def cleanedText_def isStripped_def
  by (simp only: filter_filter) (intro filter_cong, auto)

lemma str_includes_single: "str_includes s [c] = (c \<in> set s)"
  by (induction s) auto

lemma parseFactValue_Str:
  "s \<noteq> [] \<Longrightarrow> parseFactValue (JStr s) =
     (let cleaned = stage1 s;
          isNegative = (0x25B3 \<in> set cleaned \<or> 0x25B2 \<in> set cleaned \<or> 0xFF0D \<in> set cleaned
                        \<or> startsWith cleaned [45]);
          num = parseFloat (cleanedText s)
      in if num = NaN then Inr None
         else Inr (Some (if isNegative then negate num else num)))"
  unfolding parseFactValue_def
  by (simp only: cleaned_stage1 Let_def cleaned'_cleanedText str_includes_single)
     (simp add: truthy_def typeof_def string_receiver_def isNaN_def)

lemma glyph_in_stage1:
  "c \<in> set s \<Longrightarrow> c \<in> set [0x25B3, 0x25B2, 0xFF0D] \<Longrightarrow> c \<in> set (stage1 s)"
  by (auto simp add: stage1_def isWhiteSpace_def)

lemma startsWith_minus_stage1:
  "startsWith s [45] \<Longrightarrow> startsWith (stage1 s) [45]"
  by (cases s) (auto simp add: stage1_def isWhiteSpace_def)

lemma isNegative_from_text:
  assumes "hasNegativeGlyph s \<or> startsWith s [45]"
  shows "0x25B3 \<in> set (stage1 s) \<or> 0x25B2 \<in> set (stage1 s) \<or> 0xFF0D \<in> set (stage1 s)
         \<or> startsWith (stage1 s) [45]"
  using assms
proof
  assume "hasNegativeGlyph s"
  then obtain c where c: "c \<in> set s" "c \<in> set [0x25B3, 0x25B2, 0xFF0D]"
    by (auto simp add: hasNegativeGlyph_def list_ex_iff)
  from glyph_in_stage1 [OF this] c(2) show ?thesis by auto
next
  assume "startsWith s [45]"
  then show ?thesis by (simp add: startsWith_minus_stage1)
qed

lemma number_prefix:
  "(\<not> startsWith u (ascii ''Infinity'') \<and> takeWhile isDigit u = []
    \<and> fst (case dropWhile isDigit u of
              [] \<Rightarrow> ([], [])
            | c # r \<Rightarrow> if c = 46 then (takeWhile isDigit r, dropWhile isDigit r)
                       else ([], dropWhile isDigit u)) = [])
   = (\<not> beginsUnsigned u)"
  by (cases u rule: beginsUnsigned.cases) (auto simp add: ascii_def)

lemma parseFloat_NaN:
  assumes "\<And>c. c \<in> set t \<Longrightarrow> \<not> isWhiteSpace c"
  shows "(parseFloat t = NaN) = (\<not> beginsWithNumber t)"
proof (cases t)
  case Nil
  then show ?thesis
    by (simp add: parseFloat_def beginsWithNumber_def dropSign_def ascii_def)
next
  case (Cons c r)
  with assms have s: "dropWhile isWhiteSpace t = t" by simp
  define negative where "negative = (c = 45)"
  have sg: "(case t of [] \<Rightarrow> (False, [])
             | c # r \<Rightarrow> if c = 45 then (True, r) else if c = 43 then (False, r) else (False, t))
            = (negative, dropSign t)"
    by (simp add: Cons negative_def dropSign_def)
  have "(parseFloat t = NaN)
        = (\<not> startsWith (dropSign t) (ascii ''Infinity'') \<and> takeWhile isDigit (dropSign t) = []
           \<and> fst (case dropWhile isDigit (dropSign t) of
                     [] \<Rightarrow> ([], [])
                   | c # r \<Rightarrow> if c = 46 then (takeWhile isDigit r, dropWhile isDigit r)
                              else ([], dropWhile isDigit (dropSign t))) = [])"
    unfolding parseFloat_def s Let_def sg
    by (simp add: case_prod_beta toNumber_not_NaN)
  then show ?thesis
    by (simp only: number_prefix beginsWithNumber_def)
qed

lemma cleanedText_no_space: "c \<in> set (cleanedText s) \<Longrightarrow> \<not> isWhiteSpace c"
  by (simp add: cleanedText_def isStripped_def)

lemma parseFloat_cleanedText:
  "(parseFloat (cleanedText s) = NaN) = (\<not> beginsWithNumber (cleanedText s))"
  by (rule parseFloat_NaN) (rule cleanedText_no_space)

text \<open>The value of a literal is rounded: 0.1 parses to the binary64 number nearest to 1/10.\<close>

lemma parseFloat_rounds:
  "parseFloat (ascii ''0.1'') = Number (3602879701896397 / 36028797018963968)"
  by (simp add: parseFloat_def exponentPart_def isDigit_def digitsValue_def isWhiteSpace_def
      ascii_def b64)

text \<open>
  C4, amended. parseFactValue never throws: every input gives a result. The result is
  null when the input is not a string and when it is the empty string; for a string it
  is null exactly when the cleaned text does not begin with a number. When the cleaned
  text begins with a number, and the text contains a negative glyph or starts with the
  ASCII hyphen, the result is the negated parse of the cleaned text.
\<close>

theorem parseFactValue_null_or_negated:
  "(\<exists>r. parseFactValue v = Inr r)
   \<and> (typeof v \<noteq> ''string'' \<longrightarrow> parseFactValue v = Inr None)
   \<and> parseFactValue (JStr []) = Inr None
   \<and> ((parseFactValue (JStr s) = Inr None) = (\<not> beginsWithNumber (cleanedText s)))
   \<and> (beginsWithNumber (cleanedText s) \<and> (hasNegativeGlyph s \<or> startsWith s [45])
        \<longrightarrow> parseFactValue (JStr s) = Inr (Some (negate (parseFloat (cleanedText s)))))"
proof (intro conjI impI)
  show "\<exists>r. parseFactValue v = Inr r"
    by (cases v) (simp_all add: parseFactValue_def string_receiver_def typeof_def Let_def)
  show "parseFactValue v = Inr None" if "typeof v \<noteq> ''string''"
    using that by (simp add: parseFactValue_def)
  show e: "parseFactValue (JStr []) = Inr None"
    by (simp add: parseFactValue_def truthy_def)
  show "(parseFactValue (JStr s) = Inr None) = (\<not> beginsWithNumber (cleanedText s))"
  proof (cases "s = []")
    case True
    with e show ?thesis
      by (simp add: cleanedText_def beginsWithNumber_def dropSign_def)
  next
    case False
    then show ?thesis
      by (simp add: parseFactValue_Str Let_def parseFloat_cleanedText [symmetric])
  qed
  show "parseFactValue (JStr s) = Inr (Some (negate (parseFloat (cleanedText s))))"
    if h: "beginsWithNumber (cleanedText s) \<and> (hasNegativeGlyph s \<or> startsWith s [45])"
  proof -
    from h have ne: "s \<noteq> []" by (auto simp add: hasNegativeGlyph_def)
    from h have "parseFloat (cleanedText s) \<noteq> NaN" by (simp add: parseFloat_cleanedText)
    with h isNegative_from_text [of s] show ?thesis
      by (simp add: parseFactValue_Str [OF ne] Let_def)
  qed
qed

lemmas parse_defs = parseFactValue_def truthy_def typeof_def string_receiver_def trim_def isWhiteSpace_def
  parseFloat_def exponentPart_def isDigit_def digitsValue_def isNaN_def negate_def ascii_def
  cleanedText_def isStripped_def hasNegativeGlyph_def beginsWithNumber_def dropSign_def
  validNumber_def validExponent_def b64

theorem parseFactValue_null_or_negated_witness:
  "typeof JNull \<noteq> ''string'' \<and> parseFactValue JNull = Inr None
   \<and> \<not> beginsWithNumber (cleanedText (ascii ''not a number''))
   \<and> parseFactValue (JStr (ascii ''not a number'')) = Inr None
   \<and> beginsWithNumber (cleanedText (0x25B2 # ascii ''250,000''))
   \<and> hasNegativeGlyph (0x25B2 # ascii ''250,000'')
   \<and> parseFactValue (JStr (0x25B2 # ascii ''250,000'')) = Inr (Some (Number (- 250000)))"
proof -
  have a: "typeof JNull \<noteq> ''string''" by (simp add: typeof_def)
  have b: "\<not> beginsWithNumber (cleanedText (ascii ''not a number''))" by (simp add: parse_defs)
  have c: "hasNegativeGlyph (0x25B2 # ascii ''250,000'')" by (simp add: parse_defs)
  have c': "beginsWithNumber (cleanedText (0x25B2 # ascii ''250,000''))" by (simp add: parse_defs)
  have d: "parseFloat (cleanedText (0x25B2 # ascii ''250,000'')) = Number 250000"
    by (simp add: parse_defs)
  from parseFactValue_null_or_negated [of JNull "ascii ''not a number''"] a b
  have 1: "parseFactValue JNull = Inr None"
    and 2: "parseFactValue (JStr (ascii ''not a number'')) = Inr None" by blast+
  from parseFactValue_null_or_negated [of JNull "0x25B2 # ascii ''250,000''"] c c' d
  have 3: "parseFactValue (JStr (0x25B2 # ascii ''250,000'')) = Inr (Some (Number (- 250000)))"
    by (simp add: negate_def)
  from a b c c' 1 2 3 show ?thesis by blast
qed

text \<open>
  The claim as stated, null whenever the cleaned text is not a valid number, fails:
  \<open>parseFloat\<close> reads the longest numeric prefix and ignores the rest. The cleaned text
  of \<open>12abc\<close> is \<open>12abc\<close>, which is not a number, and the result is 12; that of
  \<open>1.5.3\<close> is not a number either, and the result is 1.5. (The cleaned text of
  \<open>1,250.5\<close> is a valid number.)
\<close>

theorem parseFactValue_prefix_counterexample:
  "validNumber (cleanedText (ascii ''1,250.5''))
   \<and> cleanedText (ascii ''12abc'') = ascii ''12abc''
   \<and> \<not> validNumber (cleanedText (ascii ''12abc''))
   \<and> parseFactValue (JStr (ascii ''12abc'')) = Inr (Some (Number 12))
   \<and> \<not> validNumber (cleanedText (ascii ''1.5.3''))
   \<and> parseFactValue (JStr (ascii ''1.5.3'')) = Inr (Some (Number (3 / 2)))"
proof (intro conjI)
  show "validNumber (cleanedText (ascii ''1,250.5''))" by (simp add: parse_defs)
  show "cleanedText (ascii ''12abc'') = ascii ''12abc''" by (simp add: parse_defs)
  show "\<not> validNumber (cleanedText (ascii ''12abc''))" by (simp add: parse_defs)
  show "parseFactValue (JStr (ascii ''12abc'')) = Inr (Some (Number 12))"
    by (simp add: parse_defs)
  show "\<not> validNumber (cleanedText (ascii ''1.5.3''))" by (simp add: parse_defs)
  show "parseFactValue (JStr (ascii ''1.5.3'')) = Inr (Some (Number (3 / 2)))"
    by (simp add: parse_defs)
qed

lemma decimal_digits: "c \<in> set (decimal n) \<Longrightarrow> isDigit c"
proof (induction n arbitrary: c rule: decimal.induct)
  case (1 n)
  show ?case
  proof (cases "n < 10")
    case True
    with "1.prems" show ?thesis by (simp add: decimal.simps [of n] isDigit_def)
  next
    case False
    with "1.prems" have "c \<in> set (decimal (n div 10)) \<or> c = 48 + n mod 10"
      by (auto simp add: decimal.simps [of n])
    then show ?thesis
    proof
      assume "c \<in> set (decimal (n div 10))"
      with "1.IH" False show ?thesis by simp
    next
      assume "c = 48 + n mod 10"
      moreover have "n mod 10 < 10" by simp
      ultimately show ?thesis unfolding isDigit_def by linarith
    qed
  qed
qed

lemma decimal_nonempty: "decimal n \<noteq> []"
  by (subst decimal.simps) simp

lemma digitsValue_snoc: "digitsValue (ds @ [d]) = 10 * digitsValue ds + (d - 48)"
  by (simp add: digitsValue_def)

lemma digitsValue_decimal: "digitsValue (decimal n) = n"
proof (induction n rule: decimal.induct)
  case (1 n)
  show ?case
  proof (cases "n < 10")
    case True
    then show ?thesis by (simp add: decimal.simps [of n] digitsValue_def)
  next
    case False
    with "1.IH" have "digitsValue (decimal (n div 10)) = n div 10" by simp
    with False show ?thesis
      by (simp add: decimal.simps [of n] digitsValue_snoc)
  qed
qed

lemma parseFloat_digits:
  assumes "ds \<noteq> []" and "\<And>c. c \<in> set ds \<Longrightarrow> isDigit c"
  shows "parseFloat ds = toNumber (of_nat (digitsValue ds))"
proof -
  from assms(1) obtain c cs where ds: "ds = c # cs" by (cases ds) auto
  with assms(2) have c: "isDigit c" by simp
  then have nws: "\<not> isWhiteSpace c" and c1: "c \<noteq> 45" "c \<noteq> 43" "c \<noteq> 73"
    by (auto simp add: isDigit_def isWhiteSpace_def)
  have tw: "takeWhile isDigit ds = ds" and dw: "dropWhile isDigit ds = []"
    using assms(2) by (simp_all add: takeWhile_eq_all_conv)
  have i: "\<not> startsWith ds (ascii ''Infinity'')"
    using c1 by (simp add: ds ascii_def)
  have s: "dropWhile isWhiteSpace ds = ds"
    using nws by (simp add: ds)
  have sg: "(case ds of [] \<Rightarrow> (False, [])
             | c # r \<Rightarrow> if c = 45 then (True, r) else if c = 43 then (False, r) else (False, ds))
            = (False, ds)"
    using c1 by (simp add: ds)
  show ?thesis
    unfolding parseFloat_def s Let_def sg
    using i assms(1) by (simp add: tw dw exponentPart_def digitsValue_def)
qed

lemma parseFloat_decimal: "parseFloat (decimal n) = toNumber (of_nat n)"
  using parseFloat_digits [of "decimal n"] decimal_nonempty decimal_digits
  by (simp add: digitsValue_decimal)

lemma digit_not_stripped: "isDigit c \<Longrightarrow> \<not> isStripped c"
  by (auto simp add: isDigit_def isStripped_def isWhiteSpace_def)

lemma digit_stage1: "isDigit c \<Longrightarrow> c \<noteq> 44 \<and> \<not> isWhiteSpace c"
  by (auto simp add: isDigit_def isWhiteSpace_def)

lemma cleanedText_decimal: "cleanedText (decimal n) = decimal n"
  unfolding cleanedText_def using decimal_digits digit_not_stripped
  by (simp add: filter_id_conv)

lemma stage1_decimal: "stage1 (decimal n) = decimal n"
  unfolding stage1_def using decimal_digits digit_stage1
  by (simp add: filter_id_conv)

lemma filter_group3: "\<not> P 44 \<Longrightarrow> filter P (group3 xs) = filter P xs"
  by (induction xs rule: group3.induct) simp_all

lemma filter_commaFormat:
  assumes "\<not> P 44" and "\<And>c. isDigit c \<Longrightarrow> P c"
  shows "filter P (commaFormat n) = decimal n"
proof -
  have "filter P (commaFormat n) = rev (filter P (group3 (rev (decimal n))))"
    by (simp add: commaFormat_def rev_filter [symmetric])
  also have "\<dots> = rev (filter P (rev (decimal n)))"
    using assms(1) by (simp add: filter_group3)
  also have "\<dots> = filter P (decimal n)"
    by (simp add: rev_filter)
  also have "\<dots> = decimal n"
    using decimal_digits assms(2) by (simp add: filter_id_conv)
  finally show ?thesis .
qed

lemma cleanedText_commaFormat: "cleanedText (commaFormat n) = decimal n"
  unfolding cleanedText_def
  by (rule filter_commaFormat) (simp_all add: isStripped_def [of 44] digit_not_stripped)

lemma stage1_commaFormat: "stage1 (commaFormat n) = decimal n"
  unfolding stage1_def
  by (rule filter_commaFormat) (simp_all add: digit_stage1)

lemma commaFormat_nonempty: "commaFormat n \<noteq> []"
proof
  assume "commaFormat n = []"
  then have "cleanedText (commaFormat n) = []" by (simp add: cleanedText_def)
  then show False by (simp add: cleanedText_commaFormat decimal_nonempty)
qed

lemma decimal_not_negative:
  "\<not> (0x25B3 \<in> set (decimal n) \<or> 0x25B2 \<in> set (decimal n) \<or> 0xFF0D \<in> set (decimal n)
       \<or> startsWith (decimal n) [45])"
proof -
  have "\<not> isDigit 0x25B3" "\<not> isDigit 0x25B2" "\<not> isDigit 0xFF0D" "\<not> isDigit 45"
    by (simp_all add: isDigit_def)
  moreover have "45 \<in> set (decimal n)" if "startsWith (decimal n) [45]"
    using that by (cases "decimal n") auto
  ultimately show ?thesis using decimal_digits by blast
qed

text \<open>
  C5, amended. For every natural number N up to 2^53, parsing the comma-grouped
  rendering of N gives N, and parsing the white triangle or the ASCII hyphen followed by
  the digits of N gives -N.
\<close>

theorem parseFactValue_round_trip:
  "N \<le> 2 ^ 53 \<Longrightarrow>
   parseFactValue (JStr (commaFormat N)) = Inr (Some (Number (of_nat N)))
   \<and> parseFactValue (JStr (0x25B3 # decimal N)) = Inr (Some (Number (- of_nat N)))
   \<and> parseFactValue (JStr (45 # decimal N)) = Inr (Some (Number (- of_nat N)))"
proof (intro conjI)
  assume "N \<le> 2 ^ 53"
  then have pf: "parseFloat (decimal N) = Number (of_nat N)"
    by (simp add: parseFloat_decimal toNumber_of_nat)
  show "parseFactValue (JStr (commaFormat N)) = Inr (Some (Number (of_nat N)))"
    using decimal_not_negative [of N]
    by (simp add: parseFactValue_Str [OF commaFormat_nonempty] stage1_commaFormat
        cleanedText_commaFormat pf Let_def)
  have g: "cleanedText (0x25B3 # decimal N) = decimal N"
    using cleanedText_decimal [of N] by (simp add: cleanedText_def isStripped_def)
  have g1: "0x25B3 \<in> set (stage1 (0x25B3 # decimal N))"
    by (simp add: stage1_def isWhiteSpace_def)
  show "parseFactValue (JStr (0x25B3 # decimal N)) = Inr (Some (Number (- of_nat N)))"
    using g1 by (simp add: parseFactValue_Str g pf Let_def negate_def)
  have m: "cleanedText (45 # decimal N) = decimal N"
    using cleanedText_decimal [of N] by (simp add: cleanedText_def isStripped_def)
  have m1: "startsWith (stage1 (45 # decimal N)) [45]"
    by (simp add: stage1_def isWhiteSpace_def)
  show "parseFactValue (JStr (45 # decimal N)) = Inr (Some (Number (- of_nat N)))"
    using m1 by (simp add: parseFactValue_Str m pf Let_def negate_def)
qed

theorem parseFactValue_round_trip_witness:
  "(1234567::nat) \<le> 2 ^ 53
   \<and> parseFactValue (JStr (ascii ''1,234,567'')) = Inr (Some (Number 1234567))
   \<and> parseFactValue (JStr (0x25B3 # ascii ''1234567'')) = Inr (Some (Number (- 1234567)))
   \<and> parseFactValue (JStr (ascii ''-1234567'')) = Inr (Some (Number (- 1234567)))"
proof -
  have b: "(1234567::nat) \<le> 2 ^ 53" by simp
  have c: "commaFormat 1234567 = ascii ''1,234,567''"
    by (simp add: commaFormat_def decimal.simps ascii_def)
  have d: "decimal 1234567 = ascii ''1234567''"
    by (simp add: decimal.simps ascii_def)
  have m: "45 # ascii ''1234567'' = ascii ''-1234567''"
    by (simp add: ascii_def)
  from parseFactValue_round_trip [OF b] b show ?thesis
    by (simp add: c d m)
qed

text \<open>
  The claim as stated, for every N, fails above 2^53, where not every integer is a
  Number value: the comma-grouped rendering of 2^53 + 1 = 9007199254740993 parses to
  9007199254740992, and the digits after the white triangle to -9007199254740992.
\<close>

theorem parseFactValue_round_trip_counterexample:
  "commaFormat 9007199254740993 = ascii ''9,007,199,254,740,993''
   \<and> parseFactValue (JStr (ascii ''9,007,199,254,740,993''))
       = Inr (Some (Number 9007199254740992))
   \<and> decimal 9007199254740993 = ascii ''9007199254740993''
   \<and> parseFactValue (JStr (0x25B3 # ascii ''9007199254740993''))
       = Inr (Some (Number (- 9007199254740992)))"
proof (intro conjI)
  show "commaFormat 9007199254740993 = ascii ''9,007,199,254,740,993''"
    by (simp add: commaFormat_def decimal.simps ascii_def)
  show "parseFactValue (JStr (ascii ''9,007,199,254,740,993''))
       = Inr (Some (Number 9007199254740992))"
    by (simp add: parse_defs)
  show "decimal 9007199254740993 = ascii ''9007199254740993''"
    by (simp add: decimal.simps ascii_def)
  show "parseFactValue (JStr (0x25B3 # ascii ''9007199254740993''))
       = Inr (Some (Number (- 9007199254740992)))"
    by (simp add: parse_defs)
qed

section \<open>Properties of the dimension extractor\<close>

lemmas dim_defs = extractGeographyFromDimensions_def extractSegmentFromDimensions_def
  extractProductFromDimensions_def geoKeys_def segmentKeys_def productKeys_def
  cleanDimensionValue_def endsWith_def trim_def isWhiteSpace_def ascii_def Let_def

lemma split_nonempty: "split sep s \<noteq> []"
  by (induction s) (auto split: list.splits)

lemma split_without_sep: "sep \<notin> set t \<Longrightarrow> split sep t = [t]"
  by (induction t) auto

lemma split_with_sep: "sep \<in> set s \<Longrightarrow> \<exists>p q r. split sep s = p # q # r"
proof (induction s)
  case Nil
  then show ?case by simp
next
  case (Cons c cs)
  show ?case
  proof (cases "c = sep")
    case True
    obtain q r where "split sep cs = q # r"
      using split_nonempty [of sep cs] by (cases "split sep cs") auto
    with True show ?thesis by simp
  next
    case False
    with Cons.prems have "sep \<in> set cs" by simp
    from Cons.IH [OF this] obtain p q r where "split sep cs = p # q # r" by blast
    with False show ?thesis by simp
  qed
qed

lemma last_split: "last (split sep v) = rev (takeWhile (\<lambda>c. c \<noteq> sep) (rev v))"
proof (induction v)
  case Nil
  show ?case by simp
next
  case (Cons c cs)
  show ?case
  proof (cases "sep \<in> set cs")
    case True
    from split_with_sep [OF True] obtain p q r where s: "split sep cs = p # q # r" by blast
    have "last (split sep (c # cs)) = last (split sep cs)"
      using s by (cases "c = sep") simp_all
    also have "\<dots> = rev (takeWhile (\<lambda>c. c \<noteq> sep) (rev cs))"
      by (rule Cons.IH)
    also have "takeWhile (\<lambda>c. c \<noteq> sep) (rev cs) = takeWhile (\<lambda>c. c \<noteq> sep) (rev cs @ [c])"
      using True by (simp add: takeWhile_append1 [where x = sep])
    finally show ?thesis by simp
  next
    case False
    then have s: "split sep cs = [cs]" by (rule split_without_sep)
    have t: "takeWhile (\<lambda>c. c \<noteq> sep) (rev cs @ [x])
             = rev cs @ takeWhile (\<lambda>c. c \<noteq> sep) [x]" for x
      using False by (intro takeWhile_append2) auto
    show ?thesis
      using s by (cases "c = sep") (simp_all add: t)
  qed
qed

lemma startsWith_take: "startsWith s k = (take (length k) s = k)"
  by (induction s k rule: startsWith.induct) auto

lemma strip_suffix_code:
  "(if endsWith a (ascii ''Member'') then take (length a - 6) a else a) = stripMemberSuffix a"
proof -
  have l: "length (rev (ascii ''Member'')) = 6" by (simp add: ascii_def)
  have "endsWith a (ascii ''Member'') = (take 6 (rev a) = rev (ascii ''Member''))"
    unfolding endsWith_def startsWith_take l ..
  moreover have "rev (drop 6 (rev a)) = take (length a - 6) a"
    by (simp add: rev_drop)
  ultimately show ?thesis by (simp add: stripMemberSuffix_def)
qed

lemma spaceBeforeCapitals_code:
  "concat (map (\<lambda>ch. if 65 \<le> ch \<and> ch \<le> 90 then [32, ch] else [ch]) b) = spaceBeforeCapitals b"
  by (induction b) simp_all

lemma cleaned_empty: "cleaned [] = []"
  by (simp add: cleaned_def stripNamespace_def stripMemberSuffix_def trim_def ascii_def)

lemma cleanDimensionValue_cleaned: "cleanDimensionValue v = cleaned v"
proof (cases "v = []")
  case True
  then show ?thesis by (simp add: cleanDimensionValue_def cleaned_empty)
next
  case False
  then show ?thesis
    unfolding cleanDimensionValue_def Let_def cleaned_def stripNamespace_def
    by (simp only: last_split strip_suffix_code spaceBeforeCapitals_code if_False)
qed

lemma firstMatching_find:
  "firstMatching keys d = map_option (\<lambda>kv. cleaned (snd kv)) (find (keyMatches keys) d)"
  by (induction d) (auto simp add: keyMatches_def list_ex_iff cleanDimensionValue_cleaned)

text \<open>
  C9. The extractors are functions of the dimensions alone. Geography extraction gives
  null for null and for the empty mapping, and \<open>Japan\<close> for the mapping with the single
  entry \<open>ifrs-full:GeographicalAreasMember\<close> \<open>\<mapsto>\<close> \<open>Japan\<close>. Each extractor returns the
  value of the first entry whose key matches its key list, cleaned as the specification
  says: namespace prefix stripped, trailing \<open>Member\<close> stripped, a space before every
  capital letter, trimmed.
\<close>

theorem dimension_extractors_clean_first_match:
  "extractGeographyFromDimensions None = None
   \<and> extractGeographyFromDimensions (Some []) = None
   \<and> extractGeographyFromDimensions
        (Some [(ascii ''ifrs-full:GeographicalAreasMember'', ascii ''Japan'')])
       = Some (ascii ''Japan'')
   \<and> extractGeographyFromDimensions (Some d)
       = map_option (\<lambda>kv. cleaned (snd kv)) (find (keyMatches geoKeys) d)
   \<and> extractSegmentFromDimensions (Some d)
       = map_option (\<lambda>kv. cleaned (snd kv)) (find (keyMatches segmentKeys) d)
   \<and> extractProductFromDimensions (Some d)
       = map_option (\<lambda>kv. cleaned (snd kv)) (find (keyMatches productKeys) d)"
proof (intro conjI)
  show "extractGeographyFromDimensions
        (Some [(ascii ''ifrs-full:GeographicalAreasMember'', ascii ''Japan'')])
       = Some (ascii ''Japan'')"
    by (simp add: dim_defs)
qed (simp_all add: extractGeographyFromDimensions_def extractSegmentFromDimensions_def
      extractProductFromDimensions_def firstMatching_find)

theorem dimension_extractors_clean_first_match_witness:
  "keyMatches segmentKeys (ascii ''jpcrp_cor:OperatingSegmentsAxis'', ascii ''jpcrp_cor:GameAndNetworkServicesMember'')
   \<and> extractSegmentFromDimensions
        (Some [(ascii ''jppfs_cor:ConsolidatedOrNonConsolidatedAxis'', ascii ''jppfs_cor:NonConsolidatedMember''),
               (ascii ''jpcrp_cor:OperatingSegmentsAxis'', ascii ''jpcrp_cor:GameAndNetworkServicesMember'')])
       = Some (ascii ''Game And Network Services'')"
proof -
  let ?d = "[(ascii ''jppfs_cor:ConsolidatedOrNonConsolidatedAxis'', ascii ''jppfs_cor:NonConsolidatedMember''),
               (ascii ''jpcrp_cor:OperatingSegmentsAxis'', ascii ''jpcrp_cor:GameAndNetworkServicesMember'')]"
  have k: "keyMatches segmentKeys (ascii ''jpcrp_cor:OperatingSegmentsAxis'', ascii ''jpcrp_cor:GameAndNetworkServicesMember'')"
    by (simp add: keyMatches_def segmentKeys_def ascii_def)
  have f: "find (keyMatches segmentKeys) ?d
     = Some (ascii ''jpcrp_cor:OperatingSegmentsAxis'', ascii ''jpcrp_cor:GameAndNetworkServicesMember'')"
    by (simp add: keyMatches_def segmentKeys_def ascii_def)
  have c: "cleaned (ascii ''jpcrp_cor:GameAndNetworkServicesMember'') = ascii ''Game And Network Services''"
    by (simp add: cleaned_def stripNamespace_def stripMemberSuffix_def trim_def isWhiteSpace_def ascii_def)
  from dimension_extractors_clean_first_match [of ?d] k f c show ?thesis by simp
qed

section \<open>Properties of the fact filter\<close>

lemma str_includes_empty: "str_includes s [] = True"
  by (cases s) simp_all

text \<open>The expression of the source for the period of a fact gives its effective period.\<close>

lemma factPeriod_effectivePeriod: "factPeriod f = effectivePeriod f"
  by (simp add: factPeriod_def effectivePeriod_def present_def split: option.splits)

lemma keepFact_satisfiesAll: "keepFact c f = satisfiesAll c f"
proof -
  have 1: "(case c_concept c of
            Some k \<Rightarrow> k \<noteq> [] \<and> \<not> str_includes (toLowerCase (concept f)) (toLowerCase k)
          | None \<Rightarrow> False) = (\<not> conceptMatches c f)"
    by (auto simp add: conceptMatches_def toLowerCase_def str_includes_empty split: option.splits)
  have 2: "(case c_valueRange c of
                 Some vr \<Rightarrow>
                   (case value f of
                      None \<Rightarrow> True
                    | Some x \<Rightarrow>
                        (case vr_min vr of Some lo \<Rightarrow> x < lo | None \<Rightarrow> False)
                        \<or> (case vr_max vr of Some hi \<Rightarrow> x > hi | None \<Rightarrow> False))
               | None \<Rightarrow> False) = (\<not> inValueRange c f)"
    by (auto simp add: inValueRange_def split: option.splits)
  have 3: "(case c_period c of
                 Some p \<Rightarrow> p \<noteq> [] \<and> \<not> str_includes (factPeriod f) p
               | None \<Rightarrow> False) = (\<not> periodMatches c f)"
    by (auto simp add: periodMatches_def factPeriod_effectivePeriod str_includes_empty
        split: option.splits)
  have 4: "(c_hasValue c \<and> value f = None) = (\<not> valuePresent c f)"
    by (auto simp add: valuePresent_def)
  have 5: "(c_hasDimensions c
              \<and> (case dimensions f of None \<Rightarrow> True | Some d \<Rightarrow> length d = 0))
           = (\<not> dimensionsPresent c f)"
    by (auto simp add: dimensionsPresent_def split: option.splits)
  show ?thesis
    unfolding keepFact_def 1 2 3 4 5 satisfiesAll_def by auto
qed

text \<open>
  C7. filterFacts returns exactly the facts of the input, in their order, that satisfy
  every supplied criterion: the concept as a case-insensitive substring, the inclusive
  value range (never satisfied by a null value), the period as a substring of the
  effective period text, hasValue, hasDimensions. With no criteria every fact is
  returned. The result is a new list; the input list is an argument and is not changed.
\<close>

theorem filterFacts_conjunction:
  "filterFacts facts c = filter (satisfiesAll c) facts
   \<and> filterFacts facts noCriteria = facts"
proof
  show "filterFacts facts c = filter (satisfiesAll c) facts"
    by (simp add: filterFacts_def keepFact_satisfiesAll [abs_def])
  show "filterFacts facts noCriteria = facts"
    by (simp add: filterFacts_def keepFact_satisfiesAll [abs_def] satisfiesAll_def
        conceptMatches_def inValueRange_def periodMatches_def valuePresent_def
        dimensionsPresent_def noCriteria_def)
qed

lemmas filter_defs = satisfiesAll_def conceptMatches_def inValueRange_def periodMatches_def
  valuePresent_def dimensionsPresent_def effectivePeriod_def present_def fx_def fp_def
  periodFixture_def periodCriteria_def toLowerCase_def ascii_def

theorem filterFacts_conjunction_witness:
  "filterFacts [fx ''Revenue'' (Some 150), fx ''Assets'' (Some 150), fx ''RevenueFromProducts'' (Some 250),
                fx ''NetRevenue'' None, fx ''revenue'' (Some 100)]
     \<lparr>c_concept = Some (ascii ''Revenue''), c_valueRange = Some \<lparr>vr_min = Some 100, vr_max = Some 200\<rparr>,
      c_period = None, c_hasValue = False, c_hasDimensions = False\<rparr>
   = [fx ''Revenue'' (Some 150), fx ''revenue'' (Some 100)]
   \<and> map concept (filterFacts periodFixture periodCriteria)
       = [ascii ''A'', ascii ''B'', ascii ''C'', ascii ''G'', ascii ''H'']
   \<and> map concept (filterFacts periodFixture
                     (periodCriteria\<lparr>c_hasValue := True, c_hasDimensions := True\<rparr>))
       = [ascii ''G'']
   \<and> filterFacts periodFixture noCriteria = periodFixture"
proof -
  let ?c = "\<lparr>c_concept = Some (ascii ''Revenue''), c_valueRange = Some \<lparr>vr_min = Some 100, vr_max = Some 200\<rparr>,
      c_period = None, c_hasValue = False, c_hasDimensions = False\<rparr>"
  let ?d = "periodCriteria\<lparr>c_hasValue := True, c_hasDimensions := True\<rparr>"
  have 1: "filter (satisfiesAll ?c) [fx ''Revenue'' (Some 150), fx ''Assets'' (Some 150), fx ''RevenueFromProducts'' (Some 250),
                fx ''NetRevenue'' None, fx ''revenue'' (Some 100)]
     = [fx ''Revenue'' (Some 150), fx ''revenue'' (Some 100)]"
    by (simp add: filter_defs)
  have 2: "map concept (filter (satisfiesAll periodCriteria) periodFixture)
           = [ascii ''A'', ascii ''B'', ascii ''C'', ascii ''G'', ascii ''H'']"
    by (simp add: filter_defs)
  have 3: "map concept (filter (satisfiesAll ?d) periodFixture) = [ascii ''G'']"
    by (simp add: filter_defs)
  from filterFacts_conjunction [of _ ?c] filterFacts_conjunction [of periodFixture periodCriteria]
    filterFacts_conjunction [of periodFixture ?d] 1 2 3
  show ?thesis by simp
qed

section \<open>Properties of the time-series analyzer\<close>

lemmas ts_defs = b64 calculateTrends_def calculateGrowthRates_def pairRates_def sumValues_def
  toFixed2_def sortWith_def row_def periodTotal_def geoTotal_def growing_def growingPeriods_def
  ascii_def

text \<open>
  The rate is rounded as the source rounds it. With the current sum 63 and the prior
  sum 160 the quotient is -60.625 in exact arithmetic, a tie between -60.62 and -60.63;
  the binary64 product lies above -60.625, and the rate is the number printed as -60.62.
\<close>

lemma growth_rate_rounding:
  "toFixed2 (binary64 (binary64 (binary64 (63 - 160) / 160) * 100)) = - binary64 (6062 / 100)
   \<and> binary64 (6062 / 100) \<noteq> binary64 (6063 / 100)
   \<and> (63 - 160) / 160 * 100 = (- 60625 / 1000 :: rat)"
  by (simp add: ts_defs)

text \<open>
  C1. The specification compares the earliest period's total with the latest one's. On
  the table \<open>growing\<close> the earliest period has the total 100 and the latest 200, a change
  of +100 percent, so the direction should be increasing. \<open>calculateTrends\<close> takes the
  last entry of the ascending period list as the first period and the entry at index 0 as
  the last one: it reports the change from 200 to 100, -50 percent, and decreasing.
\<close>

theorem calculateTrends_growing:
  "periodTotal growing (ascii ''2022-12-31'') = 100
   \<and> periodTotal growing (ascii ''2023-12-31'') = 200
   \<and> 5 < (periodTotal growing (ascii ''2023-12-31'') - periodTotal growing (ascii ''2022-12-31''))
            / periodTotal growing (ascii ''2022-12-31'') * 100
   \<and> calculateTrends growing = reversedTrend
   \<and> direction (calculateTrends growing) = decreasing"
  by (simp add: ts_defs reversedTrend_def)

lemma set_insertBy: "set (insertBy cmp x ys) = insert x (set ys)"
  by (induction ys) auto

lemma set_sortWith: "set (sortWith cmp xs) = set xs"
  by (induction xs) (simp_all add: sortWith_def set_insertBy)

text \<open>
  C3. The specification leaves out of the rates of a pair of periods every geography
  whose sum in the prior period, the older of the two, is 0. In the table \<open>zeroPrior\<close>
  the geography Asia has the sum 0 in the older period, 2022-12-31, and 40 in the newer
  one. \<open>calculateGrowthRates\<close> tests the sum of the period it takes as prior, which is
  the newer one: it gives Asia an entry, from 2023-12-31 to 2022-12-31, with the prior
  value 40, the current value 0 and the rate -100.
\<close>

theorem calculateGrowthRates_zero_prior:
  "geoTotal zeroPrior (ascii ''2022-12-31'') (ascii ''Asia'') = 0
   \<and> geoTotal zeroPrior (ascii ''2023-12-31'') (ascii ''Asia'') = 40
   \<and> calculateGrowthRates zeroPrior growingPeriods = Some zeroPriorGrowth
   \<and> map g_geography (rates zeroPriorGrowth) = [ascii ''Asia'']
   \<and> map priorValue (rates zeroPriorGrowth) = [40]
   \<and> map growthRate (rates zeroPriorGrowth) = [- 100]"
  by (simp add: ts_defs zeroPrior_def zeroPriorGrowth_def)

text \<open>
  C2. The specification takes the newer period of an adjacent pair as current and the
  older one as prior. On the table \<open>growing\<close> (100 in 2022, 200 in 2023) that is a growth
  of +100 percent from 2022-12-31 to 2023-12-31. \<open>calculateGrowthRates\<close> takes
  \<open>periods[i]\<close> of the ascending list as current and \<open>periods[i + 1]\<close> as prior: its
  single entry goes from 2023-12-31 to 2022-12-31, with the prior value 200, the current
  value 100 and the rate -50.
\<close>

theorem calculateGrowthRates_growing:
  "geoTotal growing (ascii ''2022-12-31'') (ascii ''Total'') = 100
   \<and> geoTotal growing (ascii ''2023-12-31'') (ascii ''Total'') = 200
   \<and> (geoTotal growing (ascii ''2023-12-31'') (ascii ''Total'')
         - geoTotal growing (ascii ''2022-12-31'') (ascii ''Total''))
        / geoTotal growing (ascii ''2022-12-31'') (ascii ''Total'') * 100 = 100
   \<and> calculateGrowthRates growing growingPeriods = Some reversedGrowth
   \<and> map growthRate (rates reversedGrowth) = [- 50]"
  by (simp add: ts_defs reversedGrowth_def)

section \<open>Properties of the fact table builder\<close>

lemmas bt_defs = buildFactTable_def filterFacts_def keepFact_def searchCriteria_def noFilters_def
  defaultOptions_def enrichFact_def sortFacts_def sortWith_def generateFactTableSummary_def
  fixture_def fx_def num_def orNull_def Let_def

lemma length_insertBy: "length (insertBy cmp x ys) = Suc (length ys)"
  by (induction ys) auto

lemma length_sortWith: "length (sortWith cmp xs) = length xs"
  by (induction xs) (simp_all add: sortWith_def length_insertBy)

lemma sum_list_insertBy:
  "sum_list (map f (insertBy cmp x ys)) = f x + sum_list (map f ys)"
  for f :: "'a \<Rightarrow> 'b::comm_monoid_add"
  by (induction ys) (auto simp add: ac_simps)

lemma sum_list_sortWith:
  "sum_list (map f (sortWith cmp xs)) = sum_list (map f xs)"
  for f :: "'a \<Rightarrow> 'b::comm_monoid_add"
  by (induction xs) (simp_all add: sortWith_def sum_list_insertBy)

lemma length_filter_sum: "length (filter P xs) = sum_list (map (\<lambda>x. if P x then 1 else 0) xs)"
  by (induction xs) simp_all

lemma sortFacts_set: "set (sortFacts lc facts sb) = set facts"
  by (simp add: sortFacts_def set_sortWith)

lemma sortFacts_length: "length (sortFacts lc facts sb) = length facts"
  by (simp add: sortFacts_def length_sortWith)

lemma sortFacts_sum:
  "sum_list (map f (sortFacts lc facts sb)) = sum_list (map f facts)"
  for f :: "enrichedFact \<Rightarrow> 'b::comm_monoid_add"
  by (simp add: sortFacts_def sum_list_sortWith)

lemma map_enrich:
  assumes "\<And>i f. g (enrichFact country t i f) = h f"
  shows "map g (map (\<lambda>(index, f). enrichFact country t index f) (enumerate n ms)) = map h ms"
  using assms by (induction ms arbitrary: n) simp_all

lemma enrich_value: "e_value (enrichFact country t i f) = value f"
  by (simp add: enrichFact_def Let_def)

lemma enrich_deviation: "deviationFromTarget (enrichFact country t i f) = num (value f) - t"
  by (simp add: enrichFact_def Let_def)

lemma enrich_exact: "exactMatch (enrichFact country t i f) = (\<bar>num (value f) - t\<bar> < 1000)"
  by (simp add: enrichFact_def Let_def)

lemma enrichAll_set:
  assumes "e \<in> set (enrichAll country t ms)"
  shows "\<exists>i f. f \<in> set ms \<and> e = enrichFact country t i f"
proof -
  from assms obtain i f where p: "(i, f) \<in> set (enumerate 0 ms)"
    and e: "e = enrichFact country t i f"
    by (auto simp add: enrichAll_def)
  from p have "f \<in> set ms"
    by (auto simp add: in_set_enumerate_eq)
  with e show ?thesis by blast
qed

lemma closest_fold:
  fixes d :: "'a \<Rightarrow> rat"
  defines "step \<equiv> \<lambda>closest f. if \<bar>d f\<bar> < \<bar>d closest\<bar> then f else closest"
  shows "foldl step a xs \<in> insert a (set xs)
         \<and> \<bar>d (foldl step a xs)\<bar> \<le> \<bar>d a\<bar>
         \<and> (\<forall>x \<in> set xs. \<bar>d (foldl step a xs)\<bar> \<le> \<bar>d x\<bar>)"
proof (induction xs arbitrary: a)
  case Nil
  show ?case by simp
next
  case (Cons x xs)
  from Cons.IH [of "step a x"] show ?case
    by (auto simp add: step_def split: if_splits)
qed

lemma filterFacts_window:
  assumes "fl_valueRange fl = None" and "f \<in> set (filterFacts facts (searchCriteria t tol fl))"
  shows "\<exists>x. value f = Some x \<and> t - tol \<le> x \<and> x \<le> t + tol"
proof -
  from assms(2) have "inValueRange (searchCriteria t tol fl) f"
    by (simp add: filterFacts_def keepFact_satisfiesAll satisfiesAll_def)
  with assms(1) show ?thesis
    by (auto simp add: inValueRange_def searchCriteria_def split: option.splits)
qed

lemma buildFactTable_nonempty:
  assumes "filterFacts facts (searchCriteria t tol (filters opts)) \<noteq> []"
  shows "buildFactTable lc country facts t tol opts =
     (let enrichedFacts = sortFacts lc (enrichAll country t
              (filterFacts facts (searchCriteria t tol (filters opts)))) (sortBy opts)
      in \<lparr>table = take (maxRows opts) enrichedFacts,
          summary = generateFactTableSummary enrichedFacts t,
          totalFactsFound = Some (length enrichedFacts),
          totalFactsReturned = Some (length (take (maxRows opts) enrichedFacts))\<rparr>)"
  using assms by (simp add: buildFactTable_def Let_def enrichAll_def)

lemma foldl_plus: "foldl (\<lambda>a b. a + b) a xs = a + sum_list xs" for a :: rat
  by (induction xs arbitrary: a) simp_all

lemma sorted_enriched_map_set:
  assumes "\<And>i f. g (enrichFact country t i f) = h f"
  shows "set (map g (sortFacts lc (enrichAll country t ms) sb)) = set (map h ms)"
proof -
  have "set (map g (sortFacts lc (enrichAll country t ms) sb))
        = g ` set (enrichAll country t ms)"
    by (simp add: sortFacts_set)
  also have "\<dots> = set (map g (enrichAll country t ms))" by simp
  also have "map g (enrichAll country t ms) = map h ms"
    unfolding enrichAll_def using assms by (rule map_enrich)
  finally show ?thesis .
qed

lemma sorted_enriched_sum:
  fixes g :: "enrichedFact \<Rightarrow> 'b::comm_monoid_add"
  assumes "\<And>i f. g (enrichFact country t i f) = h f"
  shows "sum_list (map g (sortFacts lc (enrichAll country t ms) sb)) = sum_list (map h ms)"
proof -
  have "map g (enrichAll country t ms) = map h ms"
    unfolding enrichAll_def using assms by (rule map_enrich)
  then show ?thesis by (simp add: sortFacts_sum)
qed

lemma sorted_enriched_length:
  "length (sortFacts lc (enrichAll country t ms) sb) = length ms"
  by (simp add: sortFacts_length enrichAll_def)

lemma summary_of_enriched:
  assumes ne: "ms \<noteq> []"
  shows "\<exists>s. generateFactTableSummary (sortFacts lc (enrichAll country t ms) sb) t = Summary s
     \<and> totalFacts s = length ms
     \<and> exactMatches s = length (filter (\<lambda>f. \<bar>num (value f) - t\<bar> < 1000) ms)
     \<and> valueMin s = Min (set (factValues ms))
     \<and> valueMax s = Max (set (factValues ms))
     \<and> valueAverage s = sum_list (factValues ms) / of_nat (length ms)
     \<and> (\<exists>i f. f \<in> set ms \<and> closestMatch s = enrichFact country t i f)
     \<and> (\<forall>f \<in> set ms. \<bar>deviationFromTarget (closestMatch s)\<bar> \<le> \<bar>num (value f) - t\<bar>)"
proof -
  define en where "en = sortFacts lc (enrichAll country t ms) sb"
  have len: "length en = length ms"
    unfolding en_def by (rule sorted_enriched_length)
  with ne obtain first others where en: "en = first # others"
    by (cases en) auto
  let ?vals = "map (\<lambda>f. num (e_value f)) en"
  let ?closest = "foldl (\<lambda>closest f.
      if \<bar>deviationFromTarget f\<bar> < \<bar>deviationFromTarget closest\<bar> then f else closest) first en"
  have vs: "set ?vals = set (factValues ms)"
    unfolding en_def factValues_def
    by (rule sorted_enriched_map_set) (simp add: enrich_value)
  have hd_tl: "hd ?vals # tl ?vals = ?vals"
    by (simp add: en)
  have vmin: "fold min (tl ?vals) (hd ?vals) = Min (set (factValues ms))"
    using Min.set_eq_fold [of "hd ?vals" "tl ?vals"] vs by (simp only: hd_tl)
  have vmax: "fold max (tl ?vals) (hd ?vals) = Max (set (factValues ms))"
    using Max.set_eq_fold [of "hd ?vals" "tl ?vals"] vs by (simp only: hd_tl)
  have vsum: "sum_list ?vals = sum_list (factValues ms)"
    unfolding en_def factValues_def
    by (rule sorted_enriched_sum) (simp add: enrich_value)
  have ex: "length (filter exactMatch en) = length (filter (\<lambda>f. \<bar>num (value f) - t\<bar> < 1000) ms)"
    unfolding length_filter_sum en_def
    by (rule sorted_enriched_sum) (simp add: enrich_exact)
  have devs: "set (map deviationFromTarget en) = set (map (\<lambda>f. num (value f) - t) ms)"
    unfolding en_def
    by (rule sorted_enriched_map_set) (simp add: enrich_deviation)
  from closest_fold [of deviationFromTarget first en]
  have c_in: "?closest \<in> set en"
    and c_min: "\<forall>x \<in> set en. \<bar>deviationFromTarget ?closest\<bar> \<le> \<bar>deviationFromTarget x\<bar>"
    by (auto simp add: en)
  from c_in have "?closest \<in> set (enrichAll country t ms)"
    by (simp add: en_def sortFacts_set)
  from enrichAll_set [OF this]
  have c_enr: "\<exists>i f. f \<in> set ms \<and> ?closest = enrichFact country t i f" .
  have c_all: "\<forall>f \<in> set ms. \<bar>deviationFromTarget ?closest\<bar> \<le> \<bar>num (value f) - t\<bar>"
  proof
    fix f assume "f \<in> set ms"
    then have "num (value f) - t \<in> set (map deviationFromTarget en)"
      unfolding devs by simp
    then obtain x where "x \<in> set en" "deviationFromTarget x = num (value f) - t"
      by auto
    with c_min show "\<bar>deviationFromTarget ?closest\<bar> \<le> \<bar>num (value f) - t\<bar>"
      by force
  qed
  have "\<exists>s. generateFactTableSummary en t = Summary s
     \<and> totalFacts s = length ms
     \<and> exactMatches s = length (filter (\<lambda>f. \<bar>num (value f) - t\<bar> < 1000) ms)
     \<and> valueMin s = Min (set (factValues ms))
     \<and> valueMax s = Max (set (factValues ms))
     \<and> valueAverage s = sum_list (factValues ms) / of_nat (length ms)
     \<and> (\<exists>i f. f \<in> set ms \<and> closestMatch s = enrichFact country t i f)
     \<and> (\<forall>f \<in> set ms. \<bar>deviationFromTarget (closestMatch s)\<bar> \<le> \<bar>num (value f) - t\<bar>)"
    using len ex vmin vmax vsum c_enr c_all
    by (simp add: generateFactTableSummary_def en Let_def foldl_plus del: foldl_Cons)
  then show ?thesis by (simp only: en_def)
qed

text \<open>
  C8, amended. For a call whose filters do not carry a value range of their own and that
  matches at least one fact: every row of the table has a value in the inclusive interval
  from target - tolerance to target + tolerance; the table has at most \<open>maxRows\<close> rows (25
  by default); the summary counts all matching facts and takes the exact matches, the
  minimum, the maximum and the average of the values over all of them; its closest match
  is the enrichment of a matching fact whose distance to the target is minimal among all
  matching facts; and the summary is the same for every \<open>maxRows\<close>.
\<close>

theorem buildFactTable_window_summary:
  assumes nov: "fl_valueRange (filters opts) = None"
    and ne: "matchingFacts facts target tol opts \<noteq> []"
  shows "(\<forall>r \<in> set (table (buildFactTable lc country facts target tol opts)).
            \<exists>x. e_value r = Some x \<and> target - tol \<le> x \<and> x \<le> target + tol)
     \<and> length (table (buildFactTable lc country facts target tol opts)) \<le> maxRows opts
     \<and> maxRows defaultOptions = 25
     \<and> (\<exists>s. summary (buildFactTable lc country facts target tol opts) = Summary s
          \<and> totalFacts s = length (matchingFacts facts target tol opts)
          \<and> exactMatches s =
              length (filter (\<lambda>f. \<bar>num (value f) - target\<bar> < 1000)
                        (matchingFacts facts target tol opts))
          \<and> valueMin s = Min (set (factValues (matchingFacts facts target tol opts)))
          \<and> valueMax s = Max (set (factValues (matchingFacts facts target tol opts)))
          \<and> valueAverage s =
              sum_list (factValues (matchingFacts facts target tol opts))
                / of_nat (length (matchingFacts facts target tol opts))
          \<and> (\<exists>i f. f \<in> set (matchingFacts facts target tol opts)
                \<and> closestMatch s = enrichFact country target i f)
          \<and> (\<forall>f \<in> set (matchingFacts facts target tol opts).
                \<bar>deviationFromTarget (closestMatch s)\<bar> \<le> \<bar>num (value f) - target\<bar>))
     \<and> summary (buildFactTable lc country facts target tol (opts\<lparr>maxRows := m\<rparr>))
         = summary (buildFactTable lc country facts target tol opts)"
proof -
  let ?ms = "matchingFacts facts target tol opts"
  let ?en = "sortFacts lc (enrichAll country target ?ms) (sortBy opts)"
  from ne have ne': "filterFacts facts (searchCriteria target tol (filters opts)) \<noteq> []"
    by (simp add: matchingFacts_def)
  have tab: "table (buildFactTable lc country facts target tol opts) = take (maxRows opts) ?en"
    and sm: "summary (buildFactTable lc country facts target tol opts)
             = generateFactTableSummary ?en target"
    by (simp_all add: buildFactTable_nonempty [OF ne'] Let_def matchingFacts_def)
  from ne have "filterFacts facts (searchCriteria target tol (filters (opts\<lparr>maxRows := m\<rparr>))) \<noteq> []"
    by (simp add: matchingFacts_def)
  from buildFactTable_nonempty [OF this]
  have sm': "summary (buildFactTable lc country facts target tol (opts\<lparr>maxRows := m\<rparr>))
             = generateFactTableSummary ?en target"
    by (simp add: Let_def matchingFacts_def)
  have window: "\<exists>x. e_value r = Some x \<and> target - tol \<le> x \<and> x \<le> target + tol"
    if "r \<in> set (take (maxRows opts) ?en)" for r
  proof -
    from that have "r \<in> set ?en" by (rule in_set_takeD)
    then have "r \<in> set (enrichAll country target ?ms)" by (simp add: sortFacts_set)
    from enrichAll_set [OF this] obtain i f where f: "f \<in> set ?ms"
      and r: "r = enrichFact country target i f" by blast
    from f have "f \<in> set (filterFacts facts (searchCriteria target tol (filters opts)))"
      by (simp add: matchingFacts_def)
    from filterFacts_window [OF nov this] r show ?thesis
      by (simp add: enrich_value)
  qed
  from summary_of_enriched [OF ne, of lc country target "sortBy opts"]
  show ?thesis
    unfolding tab sm sm' using window by (simp add: defaultOptions_def)
qed

theorem buildFactTable_window_summary_witness:
  "fl_valueRange (filters (defaultOptions\<lparr>maxRows := 2\<rparr>)) = None
   \<and> matchingFacts fixture 1000000 50000 (defaultOptions\<lparr>maxRows := 2\<rparr>) \<noteq> []
   \<and> map e_value (table (buildFactTable codeUnitCompare JP fixture 1000000 50000
                           (defaultOptions\<lparr>maxRows := 2\<rparr>)))
       = [Some 999500, Some 1040000]
   \<and> length (table (buildFactTable codeUnitCompare JP fixture 1000000 50000
                           (defaultOptions\<lparr>maxRows := 2\<rparr>))) \<le> 2
   \<and> summary (buildFactTable codeUnitCompare JP fixture 1000000 50000
                (defaultOptions\<lparr>maxRows := 2\<rparr>\<lparr>maxRows := 25\<rparr>))
       = summary (buildFactTable codeUnitCompare JP fixture 1000000 50000
                (defaultOptions\<lparr>maxRows := 2\<rparr>))"
proof -
  let ?opts = "defaultOptions\<lparr>maxRows := 2\<rparr>"
  have h1: "fl_valueRange (filters ?opts) = None"
    by (simp add: defaultOptions_def noFilters_def)
  have h2: "matchingFacts fixture 1000000 50000 ?opts \<noteq> []"
    by (simp add: matchingFacts_def bt_defs)
  have v: "map e_value (table (buildFactTable codeUnitCompare JP fixture 1000000 50000 ?opts))
       = [Some 999500, Some 1040000]"
    by (simp add: bt_defs)
  from buildFactTable_window_summary [OF h1 h2, of codeUnitCompare JP 25]
  have "length (table (buildFactTable codeUnitCompare JP fixture 1000000 50000 ?opts)) \<le> maxRows ?opts"
    and "summary (buildFactTable codeUnitCompare JP fixture 1000000 50000 (?opts\<lparr>maxRows := 25\<rparr>))
       = summary (buildFactTable codeUnitCompare JP fixture 1000000 50000 ?opts)"
    by blast+
  with h1 h2 v show ?thesis by simp
qed

text \<open>
  The claim as stated, for every call, fails when the caller's filters carry a value
  range: it replaces the window around the target. With target 1000000, tolerance 50000
  and the filter range from 0 upwards, the table has a row with the value 5000000.
\<close>

theorem buildFactTable_window_counterexample:
  "matchingFacts fixture 1000000 50000 overridingOptions \<noteq> []
   \<and> map e_value (table (buildFactTable codeUnitCompare JP fixture 1000000 50000 overridingOptions))
       = [Some 999500, Some 1040000, Some 960000, Some 5000000]
   \<and> \<not> ((5000000::rat) \<le> 1000000 + 50000)"
  by (simp add: bt_defs overridingOptions_def matchingFacts_def)

end
